theory Spec2Isabelle
  imports Complex_Main
begin

section \<open>SELD evaluation metrics (metrics/SELD\_evaluation\_metrics.py)\<close>

text \<open>
  The module keeps running counters for the location-sensitive detection and the
  class-sensitive localization scores. Python integers are modelled by \<open>int\<close>.
  The floating-point numbers of numpy are modelled by exact reals: every statement below is
  about the formulas the code evaluates, not about rounding.
\<close>

subsection \<open>Dictionaries, lists and errors\<close>

text \<open>
  A Python dictionary is an association list; the first binding of a key is its value.
  \<open>dict_len\<close> is \<open>len(d.keys())\<close>, \<open>dict_get\<close> is \<open>d[k]\<close> (\<open>None\<close> where Python
  raises \<open>KeyError\<close>) and \<open>dict_in\<close> is \<open>k in d\<close>.
\<close>

type_synonym ('k, 'v) dict = "('k \<times> 'v) list"

definition dict_get :: "('k, 'v) dict \<Rightarrow> 'k \<Rightarrow> 'v option" where
  "dict_get d k = map_of d k"

definition dict_in :: "'k \<Rightarrow> ('k, 'v) dict \<Rightarrow> bool" where
  "dict_in k d = (dict_get d k \<noteq> None)"

definition dict_len :: "('k, 'v) dict \<Rightarrow> nat" where
  "dict_len d = length (remdups (map fst d))"

text \<open>\<open>range(n)\<close>: the integers from 0 up to \<open>n - 1\<close>, empty when \<open>n \<le> 0\<close>.\<close>

definition py_range :: "int \<Rightarrow> int list" where
  "py_range n = map int [0..<nat n]"

text \<open>
  \<open>xs.index(v)\<close> is the first position of \<open>v\<close>. The source calls it only under the guard
  \<open>v in xs\<close>; \<open>list_index\<close> answers both at once, \<open>None\<close> meaning that \<open>v\<close> is not in \<open>xs\<close>.
\<close>

fun list_index :: "'a list \<Rightarrow> 'a \<Rightarrow> nat option" where
  "list_index [] v = None"
| "list_index (x # xs) v =
     (if x = v then Some 0 else map_option Suc (list_index xs v))"

text \<open>Reading an array at a position: \<open>None\<close> where numpy raises \<open>IndexError\<close>.\<close>

definition array_get :: "'a list \<Rightarrow> nat \<Rightarrow> 'a option" where
  "array_get xs i = (if i < length xs then Some (xs ! i) else None)"

datatype error = KeyError | IndexError | AxisError | ZeroDivisionError

subsection \<open>The accumulator\<close>

text \<open>
  The fields \<open>self._TP\<close>, ..., \<open>self._nb_classes\<close> of class \<open>SELDMetrics\<close>, each holding the
  value of the attribute. The constructor sets Python integers. \<open>self._S\<close>, \<open>self._D\<close> and
  \<open>self._I\<close> are \<open>numpy.int64\<close> once a block has been processed (see \<open>block_step\<close>); the other
  counters stay Python integers.
\<close>

record SELDMetrics =
  self_TP :: int
  self_FP :: int
  self_TN :: int
  self_FN :: int
  self_S :: int
  self_D :: int
  self_I :: int
  self_Nref :: int
  self_Nsys :: int
  self_total_DE :: real
  self_DE_TP :: int
  self_spatial_T :: real
  self_nb_classes :: int

text \<open>\<open>__init__(self, doa_threshold=20, nb_classes=11)\<close>\<close>

definition SELDMetrics_init :: "real \<Rightarrow> int \<Rightarrow> SELDMetrics" where
  "SELDMetrics_init doa_threshold nb_classes =
     \<lparr> self_TP = 0, self_FP = 0, self_TN = 0, self_FN = 0,
       self_S = 0, self_D = 0, self_I = 0,
       self_Nref = 0, self_Nsys = 0,
       self_total_DE = 0, self_DE_TP = 0,
       self_spatial_T = doa_threshold, self_nb_classes = nb_classes \<rparr>"

text \<open>
  The value of an integer as \<open>numpy.int64\<close>: addition in that type wraps around at \<open>2 ^ 63\<close>.
  \<open>in_int64\<close> says that an integer is the value of an int64.
\<close>

definition np_int64 :: "int \<Rightarrow> int" where
  "np_int64 x = (x + 2 ^ 63) mod 2 ^ 64 - 2 ^ 63"

definition in_int64 :: "int \<Rightarrow> bool" where
  "in_int64 x = (- (2 ^ 63) \<le> x \<and> x < 2 ^ 63)"

text \<open>\<open>eps = np.finfo(np.float).eps\<close>, the machine epsilon of float64.\<close>

definition eps :: real where
  "eps = 1 / 2 ^ 52"

subsection \<open>compute\_seld\_scores\<close>

text \<open>
  The test \<open>if self._DE_TP:\<close> is Python truthiness: the branch is taken for every
  non-zero count. \<open>S + D + I\<close> is the sum of the three values; a sum of int64 agrees with it
  below \<open>2 ^ 63\<close>.
\<close>

definition compute_seld_scores :: "SELDMetrics \<Rightarrow> real \<times> real \<times> real \<times> real" where
  "compute_seld_scores s =
     (let ER = real_of_int (self_S s + self_D s + self_I s) / (real_of_int (self_Nref s) + eps);
          prec = real_of_int (self_TP s) / (real_of_int (self_Nsys s) + eps);
          recall = real_of_int (self_TP s) / (real_of_int (self_Nref s) + eps);
          F = 2 * prec * recall / (prec + recall + eps);
          DE = (if self_DE_TP s \<noteq> 0
                then self_total_DE s / (real_of_int (self_DE_TP s) + eps)
                else 180);
          DE_prec = real_of_int (self_DE_TP s) / (real_of_int (self_Nsys s) + eps);
          DE_recall = real_of_int (self_DE_TP s) / (real_of_int (self_Nref s) + eps);
          DE_F = 2 * DE_prec * DE_recall / (DE_prec + DE_recall + eps)
      in (ER, F, DE, DE_F))"





subsection \<open>Spatial distances\<close>

text \<open>\<open>np.clip(x, lo, hi)\<close> is \<open>minimum(hi, maximum(x, lo))\<close>.\<close>

definition np_clip :: "real \<Rightarrow> real \<Rightarrow> real \<Rightarrow> real" where
  "np_clip x lo hi = min hi (max x lo)"

definition distance_between_spherical_coordinates_rad :: "real \<Rightarrow> real \<Rightarrow> real \<Rightarrow> real \<Rightarrow> real" where
  "distance_between_spherical_coordinates_rad az1 ele1 az2 ele2 =
     (let dist = sin ele1 * sin ele2 + cos ele1 * cos ele2 * cos \<bar>az1 - az2\<bar>;
          dist = np_clip dist (- 1) 1;
          dist = arccos dist * 180 / pi
      in dist)"

definition distance_between_cartesian_coordinates ::
    "real \<Rightarrow> real \<Rightarrow> real \<Rightarrow> real \<Rightarrow> real \<Rightarrow> real \<Rightarrow> real" where
  "distance_between_cartesian_coordinates x1 y1 z1 x2 y2 z2 =
     (let dist = sqrt ((x1 - x2) ^ 2 + (y1 - y2) ^ 2 + (z1 - z2) ^ 2);
          dist = np_clip dist (- 1) 1;
          dist = 2 * arcsin (dist / 2) * 180 / pi
      in dist)"

subsection \<open>early\_stopping\_metric\<close>

text \<open>\<open>np.mean\<close> of a list of numbers.\<close>

definition np_mean :: "real list \<Rightarrow> real" where
  "np_mean xs = sum_list xs / real (length xs)"

text \<open>
  The two arguments are sequences read at positions 0 and 1; a shorter sequence raises
  \<open>IndexError\<close>.
\<close>

definition early_stopping_metric :: "real list \<Rightarrow> real list \<Rightarrow> error + real" where
  "early_stopping_metric sed_error doa_error =
     (case (array_get sed_error 0, array_get sed_error 1,
            array_get doa_error 0, array_get doa_error 1) of
        (Some s0, Some s1, Some d0, Some d1) \<Rightarrow>
          Inr (np_mean [s0, 1 - s1, d0 / 180, 1 - d1])
      | _ \<Rightarrow> Inl IndexError)"

subsection \<open>Annotations\<close>

text \<open>
  An annotation maps a block index to a mapping from class index to a list of tracks; a track
  is the list of frame indices and the list of the coordinates for those frames, one
  coordinate per frame (the singleton axis that \<open>np.squeeze(.., 1)\<close> removes is fixed by the
  type). The coordinate type is \<open>(x, y, z)\<close> for \<open>update_seld_scores_xyz\<close> and
  \<open>(azimuth, elevation)\<close> in degrees for \<open>update_seld_scores\<close>.
\<close>

type_synonym 'c track = "int list \<times> 'c list"
type_synonym 'c block = "(int, 'c track list) dict"
type_synonym 'c annotation = "(int, 'c block) dict"

text \<open>
  An ingestion call mutates the accumulator and may raise part-way: \<open>Inl (e, s)\<close> is
  "raised \<open>e\<close>, leaving the object in state \<open>s\<close>", \<open>Inr\<close> is a normal return.
\<close>

type_synonym 'a result = "(error \<times> SELDMetrics) + 'a"

definition final_state :: "SELDMetrics result \<Rightarrow> SELDMetrics" where
  "final_state r = (case r of Inl (e, s) \<Rightarrow> s | Inr s \<Rightarrow> s)"

subsection \<open>The ingestion loops\<close>

text \<open>
  The loop \<open>for gt_ind, gt_val in enumerate(gt_ind_list)\<close>, accumulating
  \<open>(total_spatial_dist, total_framewise_matching_doa)\<close>. \<open>distance\<close> is the distance between a
  ground-truth and a predicted coordinate.
\<close>

fun frame_loop :: "('c \<Rightarrow> 'c \<Rightarrow> real) \<Rightarrow> 'c list \<Rightarrow> int list \<Rightarrow> 'c list \<Rightarrow>
    (nat \<times> int) list \<Rightarrow> real \<times> int \<Rightarrow> error + real \<times> int" where
  "frame_loop distance gt_list pred_ind_list pred_list [] acc = Inr acc"
| "frame_loop distance gt_list pred_ind_list pred_list ((gt_ind, gt_val) # rest)
       (total_spatial_dist, total_framewise_matching_doa) =
     (case list_index pred_ind_list gt_val of
        None \<Rightarrow> frame_loop distance gt_list pred_ind_list pred_list rest
                  (total_spatial_dist, total_framewise_matching_doa)
      | Some pred_ind \<Rightarrow>
          (case array_get gt_list gt_ind of
             None \<Rightarrow> Inl IndexError
           | Some g \<Rightarrow>
               (case array_get pred_list pred_ind of
                  None \<Rightarrow> Inl IndexError
                | Some p \<Rightarrow> frame_loop distance gt_list pred_ind_list pred_list rest
                    (total_spatial_dist + distance g p, total_framewise_matching_doa + 1))))"

text \<open>
  The first track of the class on both sides (\<open>[0]\<close> raises \<open>IndexError\<close> on an empty
  list), the two coordinate arrays (\<open>np.squeeze(.., 1)\<close> raises \<open>AxisError\<close> on the array
  of an empty list), then the frame loop from \<open>(0, 0)\<close>.
\<close>

definition matched_distance :: "('c \<Rightarrow> 'c \<Rightarrow> real) \<Rightarrow> 'c track list \<Rightarrow> 'c track list \<Rightarrow>
    error + real \<times> int" where
  "matched_distance distance gt_tracks pred_tracks =
     (case gt_tracks of
        [] \<Rightarrow> Inl IndexError
      | (gt_ind_list, gt_list) # _ \<Rightarrow>
          if gt_list = [] then Inl AxisError
          else (case pred_tracks of
             [] \<Rightarrow> Inl IndexError
           | (pred_ind_list, pred_list) # _ \<Rightarrow>
               if pred_list = [] then Inl AxisError
               else frame_loop distance gt_list pred_ind_list pred_list
                      (enumerate 0 gt_ind_list) (0, 0)))"

text \<open>
  The branch "class in ground truth and in prediction", given the two sums of the frame
  loop. The state carries the counters, \<open>loc_FN\<close> and \<open>loc_FP\<close> are the locals of the block.
\<close>

definition both_present :: "SELDMetrics \<Rightarrow> int \<Rightarrow> int \<Rightarrow> real \<Rightarrow> int \<Rightarrow>
    (SELDMetrics \<times> int \<times> int) result" where
  "both_present s loc_FN loc_FP total_spatial_dist total_framewise_matching_doa =
     (if total_spatial_dist = 0 \<and> total_framewise_matching_doa = 0
      then Inr (s\<lparr>self_FN := self_FN s + 1\<rparr>, loc_FN + 1, loc_FP)
      else if total_framewise_matching_doa = 0 then Inl (ZeroDivisionError, s)
      else
        (let avg_spatial_dist = total_spatial_dist / real_of_int total_framewise_matching_doa;
             s1 = s\<lparr>self_total_DE := self_total_DE s + avg_spatial_dist\<rparr>;
             s2 = s1\<lparr>self_DE_TP := self_DE_TP s1 + 1\<rparr>
         in if avg_spatial_dist \<le> self_spatial_T s2
            then Inr (s2\<lparr>self_TP := self_TP s2 + 1\<rparr>, loc_FN, loc_FP)
            else Inr (s2\<lparr>self_FN := self_FN s2 + 1\<rparr>, loc_FN + 1, loc_FP)))"

text \<open>
  One iteration of \<open>for class_cnt in range(self._nb_classes)\<close>. \<open>gt[block_cnt]\<close> and
  \<open>pred[block_cnt]\<close> are looked up in the order of the source, \<open>self._Nref\<close> being updated
  between the two. The chain of \<open>if\<close>/\<open>elif\<close> has no \<open>else\<close>: where no condition holds the
  iteration changes nothing more.
\<close>

definition class_step :: "('c \<Rightarrow> 'c \<Rightarrow> real) \<Rightarrow> 'c annotation \<Rightarrow> 'c annotation \<Rightarrow> int \<Rightarrow> int \<Rightarrow>
    SELDMetrics \<times> int \<times> int \<Rightarrow> (SELDMetrics \<times> int \<times> int) result" where
  "class_step distance pred gt block_cnt class_cnt acc =
     (case acc of (s, loc_FN, loc_FP) \<Rightarrow>
       (case dict_get gt block_cnt of
          None \<Rightarrow> Inl (KeyError, s)
        | Some gt_block \<Rightarrow>
           (let s1 = (if dict_in class_cnt gt_block
                      then s\<lparr>self_Nref := self_Nref s + 1\<rparr> else s)
            in case dict_get pred block_cnt of
                 None \<Rightarrow> Inl (KeyError, s1)
               | Some pred_block \<Rightarrow>
                  (let s2 = (if dict_in class_cnt pred_block
                             then s1\<lparr>self_Nsys := self_Nsys s1 + 1\<rparr> else s1)
                   in if dict_in class_cnt gt_block \<and> dict_in class_cnt pred_block then
                        (case (dict_get gt_block class_cnt, dict_get pred_block class_cnt) of
                           (Some gt_tracks, Some pred_tracks) \<Rightarrow>
                             (case matched_distance distance gt_tracks pred_tracks of
                                Inl e \<Rightarrow> Inl (e, s2)
                              | Inr (total_spatial_dist, total_framewise_matching_doa) \<Rightarrow>
                                  both_present s2 loc_FN loc_FP
                                    total_spatial_dist total_framewise_matching_doa)
                         | _ \<Rightarrow> Inl (KeyError, s2))
                      else if dict_in class_cnt gt_block \<and> \<not> dict_in class_cnt pred_block then
                        Inr (s2\<lparr>self_FN := self_FN s2 + 1\<rparr>, loc_FN + 1, loc_FP)
                      else if \<not> dict_in class_cnt gt_block \<and> dict_in class_cnt pred_block then
                        Inr (s2\<lparr>self_FP := self_FP s2 + 1\<rparr>, loc_FN, loc_FP + 1)
                      else if \<not> dict_in class_cnt gt_block \<and> \<not> dict_in class_cnt pred_block then
                        Inr (s2\<lparr>self_TN := self_TN s2 + 1\<rparr>, loc_FN, loc_FP)
                      else Inr (s2, loc_FN, loc_FP)))))"

fun class_loop :: "('c \<Rightarrow> 'c \<Rightarrow> real) \<Rightarrow> 'c annotation \<Rightarrow> 'c annotation \<Rightarrow> int \<Rightarrow> int list \<Rightarrow>
    SELDMetrics \<times> int \<times> int \<Rightarrow> (SELDMetrics \<times> int \<times> int) result" where
  "class_loop distance pred gt block_cnt [] acc = Inr acc"
| "class_loop distance pred gt block_cnt (class_cnt # rest) acc =
     (case class_step distance pred gt block_cnt class_cnt acc of
        Inl e \<Rightarrow> Inl e
      | Inr acc' \<Rightarrow> class_loop distance pred gt block_cnt rest acc')"

text \<open>
  One iteration of \<open>for block_cnt in range(len(gt.keys()))\<close>: the class loop from
  \<open>loc_FN, loc_FP = 0, 0\<close>, then the three error-rate counters. \<open>np.minimum\<close> and
  \<open>np.maximum\<close> return \<open>numpy.int64\<close>, so each \<open>+=\<close> is an addition of int64, whose result
  wraps around, and leaves an int64 in the counter. The model is the program's for counters
  that hold int64 values, as they do from the constructor's 0 on, and for locals within the
  int64 range, as they are for fewer than \<open>2 ^ 63\<close> classes.
\<close>

definition block_step :: "('c \<Rightarrow> 'c \<Rightarrow> real) \<Rightarrow> 'c annotation \<Rightarrow> 'c annotation \<Rightarrow> SELDMetrics \<Rightarrow> int \<Rightarrow>
    SELDMetrics result" where
  "block_step distance pred gt s block_cnt =
     (case class_loop distance pred gt block_cnt (py_range (self_nb_classes s)) (s, 0, 0) of
        Inl e \<Rightarrow> Inl e
      | Inr (s', loc_FN, loc_FP) \<Rightarrow>
          Inr (s'\<lparr>self_S := np_int64 (self_S s' + min loc_FP loc_FN),
                  self_D := np_int64 (self_D s' + max 0 (loc_FN - loc_FP)),
                  self_I := np_int64 (self_I s' + max 0 (loc_FP - loc_FN))\<rparr>))"

fun block_loop :: "('c \<Rightarrow> 'c \<Rightarrow> real) \<Rightarrow> 'c annotation \<Rightarrow> 'c annotation \<Rightarrow> int list \<Rightarrow>
    SELDMetrics \<Rightarrow> SELDMetrics result" where
  "block_loop distance pred gt [] s = Inr s"
| "block_loop distance pred gt (block_cnt # rest) s =
     (case block_step distance pred gt s block_cnt of
        Inl e \<Rightarrow> Inl e
      | Inr s' \<Rightarrow> block_loop distance pred gt rest s')"

text \<open>
  The body shared by the two ingestion methods, which differ in the distance only.
\<close>

definition update_scores :: "('c \<Rightarrow> 'c \<Rightarrow> real) \<Rightarrow> SELDMetrics \<Rightarrow> 'c annotation \<Rightarrow> 'c annotation \<Rightarrow>
    SELDMetrics result" where
  "update_scores distance s pred gt = block_loop distance pred gt (py_range (int (dict_len gt))) s"

type_synonym xyz = "real \<times> real \<times> real"
type_synonym azi_ele = "real \<times> real"

definition dist_xyz :: "xyz \<Rightarrow> xyz \<Rightarrow> real" where
  "dist_xyz g p =
     (case g of (gt_x, gt_y, gt_z) \<Rightarrow> case p of (pred_x, pred_y, pred_z) \<Rightarrow>
        distance_between_cartesian_coordinates gt_x gt_y gt_z pred_x pred_y pred_z)"

text \<open>The polar method multiplies the arrays of degrees by \<open>np.pi / 180\<close> first.\<close>

definition dist_deg :: "azi_ele \<Rightarrow> azi_ele \<Rightarrow> real" where
  "dist_deg g p =
     (case g of (gt_azi, gt_ele) \<Rightarrow> case p of (pred_azi, pred_ele) \<Rightarrow>
        distance_between_spherical_coordinates_rad
          (gt_azi * pi / 180) (gt_ele * pi / 180) (pred_azi * pi / 180) (pred_ele * pi / 180))"

definition update_seld_scores_xyz :: "SELDMetrics \<Rightarrow> xyz annotation \<Rightarrow> xyz annotation \<Rightarrow>
    SELDMetrics result" where
  "update_seld_scores_xyz s pred gt = update_scores dist_xyz s pred gt"

definition update_seld_scores :: "SELDMetrics \<Rightarrow> azi_ele annotation \<Rightarrow> azi_ele annotation \<Rightarrow>
    SELDMetrics result" where
  "update_seld_scores s pred_deg gt_deg = update_scores dist_deg s pred_deg gt_deg"

subsection \<open>Relations between accumulator states\<close>

text \<open>Every counter of \<open>s'\<close> is at least the counter of \<open>s\<close>.\<close>

definition counters_le :: "SELDMetrics \<Rightarrow> SELDMetrics \<Rightarrow> bool" where
  "counters_le s s' =
     (self_TP s \<le> self_TP s' \<and> self_FP s \<le> self_FP s' \<and> self_TN s \<le> self_TN s' \<and>
      self_FN s \<le> self_FN s' \<and> self_S s \<le> self_S s' \<and> self_D s \<le> self_D s' \<and>
      self_I s \<le> self_I s' \<and> self_Nref s \<le> self_Nref s' \<and> self_Nsys s \<le> self_Nsys s' \<and>
      self_DE_TP s \<le> self_DE_TP s' \<and> self_total_DE s \<le> self_total_DE s')"

text \<open>
  The same for the counters that are Python numbers, and for the three int64 counters.
\<close>

definition py_counters_le :: "SELDMetrics \<Rightarrow> SELDMetrics \<Rightarrow> bool" where
  "py_counters_le s s' =
     (self_TP s \<le> self_TP s' \<and> self_FP s \<le> self_FP s' \<and> self_TN s \<le> self_TN s' \<and>
      self_FN s \<le> self_FN s' \<and> self_Nref s \<le> self_Nref s' \<and> self_Nsys s \<le> self_Nsys s' \<and>
      self_DE_TP s \<le> self_DE_TP s' \<and> self_total_DE s \<le> self_total_DE s')"

definition sdi_le :: "SELDMetrics \<Rightarrow> SELDMetrics \<Rightarrow> bool" where
  "sdi_le s s' =
     (self_S s \<le> self_S s' \<and> self_D s \<le> self_D s' \<and> self_I s \<le> self_I s')"

text \<open>
  Room in the int64 counters: \<open>room x n\<close> says that \<open>x\<close> is an int64 and \<open>x + n\<close> still
  below \<open>2 ^ 63\<close>; \<open>headroom s n\<close> that there are fewer than \<open>2 ^ 63\<close> classes and that S, D
  and I have room for \<open>n\<close> blocks, a block adding at most the number of classes to each.
\<close>

definition room :: "int \<Rightarrow> int \<Rightarrow> bool" where
  "room x n = (- (2 ^ 63) \<le> x \<and> x + n < 2 ^ 63)"

definition headroom :: "SELDMetrics \<Rightarrow> nat \<Rightarrow> bool" where
  "headroom s nb_blocks =
     (self_nb_classes s < 2 ^ 63 \<and>
      room (self_S s) (int nb_blocks * max 0 (self_nb_classes s)) \<and>
      room (self_D s) (int nb_blocks * max 0 (self_nb_classes s)) \<and>
      room (self_I s) (int nb_blocks * max 0 (self_nb_classes s)))"

text \<open>What an iteration never touches, and how the locals follow the global counters.\<close>

definition locals_follow :: "SELDMetrics \<times> int \<times> int \<Rightarrow> SELDMetrics \<times> int \<times> int \<Rightarrow> bool" where
  "locals_follow acc acc' =
     (case acc of (s, loc_FN, loc_FP) \<Rightarrow> case acc' of (s', loc_FN', loc_FP') \<Rightarrow>
        loc_FN' - loc_FN = self_FN s' - self_FN s \<and> loc_FP' - loc_FP = self_FP s' - self_FP s \<and>
        loc_FN \<le> loc_FN' \<and> loc_FP \<le> loc_FP' \<and>
        self_S s' = self_S s \<and> self_D s' = self_D s \<and> self_I s' = self_I s \<and>
        self_nb_classes s' = self_nb_classes s \<and> self_spatial_T s' = self_spatial_T s)"

text \<open>
  The change of \<open>(TP, FP, TN, FN)\<close> between two states: the outcome an iteration counted.
\<close>

definition outcome :: "SELDMetrics \<Rightarrow> SELDMetrics \<Rightarrow> int \<times> int \<times> int \<times> int" where
  "outcome s s' =
     (self_TP s' - self_TP s, self_FP s' - self_FP s, self_TN s' - self_TN s,
      self_FN s' - self_FN s)"

text \<open>
  Membership of a class in the block of an annotation (false where the block is missing), the
  number of pairs of a block index and a class index with a property, and what a call that
  returns has counted: FP for the pairs in the prediction only, TN for the pairs in neither,
  TP or FN for the pairs in the ground truth, TP only for pairs in both.
\<close>

definition present :: "'c annotation \<Rightarrow> int \<Rightarrow> int \<Rightarrow> bool" where
  "present ann block_cnt class_cnt =
     (case dict_get ann block_cnt of None \<Rightarrow> False | Some blk \<Rightarrow> dict_in class_cnt blk)"

definition count_pairs :: "(int \<Rightarrow> int \<Rightarrow> bool) \<Rightarrow> int list \<Rightarrow> int list \<Rightarrow> int" where
  "count_pairs P bs cs = int (length (filter (\<lambda>(b, c). P b c) (List.product bs cs)))"

definition outcomes_counted :: "'c annotation \<Rightarrow> 'c annotation \<Rightarrow> int list \<Rightarrow> int list \<Rightarrow>
    SELDMetrics \<Rightarrow> SELDMetrics \<Rightarrow> bool" where
  "outcomes_counted pred gt bs cs s s' =
     (self_FP s' - self_FP s = count_pairs (\<lambda>b c. \<not> present gt b c \<and> present pred b c) bs cs \<and>
      self_TN s' - self_TN s = count_pairs (\<lambda>b c. \<not> present gt b c \<and> \<not> present pred b c) bs cs \<and>
      (self_TP s' - self_TP s) + (self_FN s' - self_FN s) = count_pairs (\<lambda>b c. present gt b c) bs cs \<and>
      0 \<le> self_TP s' - self_TP s \<and>
      self_TP s' - self_TP s \<le> count_pairs (\<lambda>b c. present gt b c \<and> present pred b c) bs cs)"

text \<open>
  Tracks the frame loop runs through without an error: a first track exists, its coordinate
  list is not empty and has a coordinate for every frame index.
\<close>

definition aligned :: "'c track list \<Rightarrow> bool" where
  "aligned tracks =
     (case tracks of
        [] \<Rightarrow> False
      | (ind_list, coords) # _ \<Rightarrow> coords \<noteq> [] \<and> length ind_list \<le> length coords)"

subsection \<open>Example inputs\<close>

text \<open>
  One track with frame 0 at \<open>(1, 0, 0)\<close>; a ground truth of one block holding class 0; an
  accumulator for three classes.
\<close>

definition example_track :: "xyz track list" where
  "example_track = [([0], [(1, 0, 0)])]"

definition example_gt :: "xyz annotation" where
  "example_gt = [(0, [(0, example_track)])]"

definition example_state :: SELDMetrics where
  "example_state = SELDMetrics_init 20 3"

text \<open>
  The same geometry in both coordinate systems: the ground truth at \<open>(1, 0, 0)\<close>, that is
  azimuth 0 and elevation 0, and a prediction at azimuth \<open>azi\<close> and elevation 0; the
  prediction at azimuth 180 is \<open>(- 1, 0, 0)\<close>.
\<close>

definition deg_gt :: "azi_ele annotation" where
  "deg_gt = [(0, [(0, [([0], [(0, 0)])])])]"

definition deg_pred :: "real \<Rightarrow> azi_ele annotation" where
  "deg_pred azi = [(0, [(0, [([0], [(azi, 0)])])])]"

definition xyz_pred_opposite :: "xyz annotation" where
  "xyz_pred_opposite = [(0, [(0, [([0], [(- 1, 0, 0)])])])]"

section \<open>Properties of the scores\<close>

lemma eps_pos: "0 < eps"
  by (simp add: eps_def)

text \<open>
  Claim C10. The true-negative counter has no influence on the scores: changing
  \<open>self._TN\<close> to any value and leaving every other field as it is gives the same
  \<open>(ER, F, DE, DE_F)\<close>.
\<close>

theorem compute_seld_scores_ignores_TN:
  "compute_seld_scores (s\<lparr>self_TN := tn\<rparr>) = compute_seld_scores s"
  by (simp add: compute_seld_scores_def)



text \<open>
  Claim C9. On the pairs \<open>[error_rate, F]\<close> and \<open>[doa_error, frame_recall]\<close>,
  \<open>early_stopping_metric\<close> returns the mean of \<open>error_rate\<close>, \<open>1 - F\<close>, \<open>doa_error / 180\<close>
  and \<open>1 - frame_recall\<close>; on \<open>[0.5, 0.8]\<close> and \<open>[40, 0.6]\<close> this is \<open>119 / 360\<close>, within
  \<open>0.0001\<close> of \<open>0.3306\<close>.
\<close>

theorem early_stopping_metric_mean:
  "early_stopping_metric [er, f] [de, fr] = Inr ((er + (1 - f) + de / 180 + (1 - fr)) / 4)
   \<and> early_stopping_metric [5 / 10, 8 / 10] [40, 6 / 10] = Inr (119 / 360)
   \<and> \<bar>(119 / 360 :: real) - 3306 / 10000\<bar> < 1 / 10000"
  by (simp add: early_stopping_metric_def array_get_def np_mean_def)

section \<open>Properties of the ingestion\<close>

subsection \<open>No counter decreases\<close>

lemma counters_le_refl: "counters_le s s"
  by (simp add: counters_le_def)

lemma counters_le_trans: "counters_le s t \<Longrightarrow> counters_le t u \<Longrightarrow> counters_le s u"
  by (auto simp: counters_le_def)

lemma frame_loop_nonneg:
  assumes "\<forall>g p. 0 \<le> distance g p"
  shows "frame_loop distance gl pil pl fs (t, n) = Inr (t', n') \<Longrightarrow> 0 \<le> t \<Longrightarrow> 0 \<le> n
         \<Longrightarrow> 0 \<le> t' \<and> 0 \<le> n'"
proof (induction fs arbitrary: t n)
  case Nil
  then show ?case by simp
next
  case (Cons f fs)
  obtain i v where f: "f = (i, v)" by (cases f)
  show ?case
  proof (cases "list_index pil v")
    case None
    with Cons f show ?thesis by simp
  next
    case (Some j)
    with Cons.prems f obtain g p where
      gp: "array_get gl i = Some g" "array_get pl j = Some p"
      and run: "frame_loop distance gl pil pl fs (t + distance g p, n + 1) = Inr (t', n')"
      by (auto split: option.splits)
    have "0 \<le> t + distance g p" using Cons.prems(2) assms by simp
    moreover have "0 \<le> n + 1" using Cons.prems(3) by simp
    ultimately show ?thesis using Cons.IH [OF run] by simp
  qed
qed

lemma matched_distance_nonneg:
  assumes "\<forall>g p. 0 \<le> distance g p"
    and "matched_distance distance gts pts = Inr (t, n)"
  shows "0 \<le> t \<and> 0 \<le> n"
  using assms(2)
  by (auto simp: matched_distance_def split: list.splits if_splits prod.splits
           dest!: frame_loop_nonneg [OF assms(1)])

lemma both_present_Inr_mono:
  "both_present s loc_FN loc_FP t n = Inr (s', loc_FN', loc_FP') \<Longrightarrow> 0 \<le> t \<Longrightarrow> 0 \<le> n \<Longrightarrow> counters_le s s'"
  by (auto simp: both_present_def counters_le_def Let_def split: if_splits)

lemma both_present_Inl_mono:
  "both_present s loc_FN loc_FP t n = Inl (e, s') \<Longrightarrow> s' = s"
  by (auto simp: both_present_def Let_def split: if_splits)

lemma class_step_Inr_mono:
  assumes "\<forall>g p. 0 \<le> distance g p"
    and "class_step distance pred gt b c (s, loc_FN, loc_FP) = Inr (s', loc_FN', loc_FP')"
  shows "counters_le s s'"
  using assms(2)
  apply (simp add: class_step_def Let_def split: option.splits if_splits sum.splits prod.splits)
  apply (auto simp: counters_le_def dest!: both_present_Inr_mono matched_distance_nonneg [OF assms(1)])
  done

lemma class_step_Inl_mono:
  assumes "class_step distance pred gt b c (s, loc_FN, loc_FP) = Inl (e, s')"
  shows "counters_le s s'"
  using assms
  apply (simp add: class_step_def Let_def split: option.splits if_splits sum.splits prod.splits)
  apply (auto simp: counters_le_def dest!: both_present_Inl_mono)
  done

lemma class_loop_Inr_mono:
  assumes "\<forall>g p. 0 \<le> distance g p"
  shows "class_loop distance pred gt b cs (s, loc_FN, loc_FP) = Inr (s', loc_FN', loc_FP')
         \<Longrightarrow> counters_le s s'"
proof (induction cs arbitrary: s loc_FN loc_FP)
  case Nil
  then show ?case by (simp add: counters_le_refl)
next
  case (Cons c cs)
  then obtain s1 a1 b1 where
    step: "class_step distance pred gt b c (s, loc_FN, loc_FP) = Inr (s1, a1, b1)"
    and rest: "class_loop distance pred gt b cs (s1, a1, b1) = Inr (s', loc_FN', loc_FP')"
    by (auto split: sum.splits)
  from class_step_Inr_mono [OF assms step] Cons.IH [OF rest]
  show ?case by (rule counters_le_trans)
qed

lemma class_loop_Inl_mono:
  assumes "\<forall>g p. 0 \<le> distance g p"
  shows "class_loop distance pred gt b cs (s, loc_FN, loc_FP) = Inl (e, s')
         \<Longrightarrow> counters_le s s'"
proof (induction cs arbitrary: s loc_FN loc_FP)
  case Nil
  then show ?case by simp
next
  case (Cons c cs)
  show ?case
  proof (cases "class_step distance pred gt b c (s, loc_FN, loc_FP)")
    case (Inl x)
    with Cons.prems have "class_step distance pred gt b c (s, loc_FN, loc_FP) = Inl (e, s')"
      by simp
    then show ?thesis by (rule class_step_Inl_mono)
  next
    case (Inr acc)
    obtain s1 a1 b1 where acc: "acc = (s1, a1, b1)" by (cases acc)
    with Inr Cons.prems have rest: "class_loop distance pred gt b cs (s1, a1, b1) = Inl (e, s')"
      by simp
    from Inr acc have "counters_le s s1"
      using class_step_Inr_mono [OF assms] by blast
    then show ?thesis using Cons.IH [OF rest] by (rule counters_le_trans)
  qed
qed

subsection \<open>The locals of a block and the global counters\<close>

lemma locals_follow_refl: "locals_follow acc acc"
  by (simp add: locals_follow_def split: prod.splits)

lemma locals_follow_trans: "locals_follow a b \<Longrightarrow> locals_follow b c \<Longrightarrow> locals_follow a c"
  by (auto simp: locals_follow_def split: prod.splits)

lemma both_present_locals:
  "both_present s loc_FN loc_FP t n = Inr acc' \<Longrightarrow> locals_follow (s, loc_FN, loc_FP) acc'"
  by (auto simp: both_present_def locals_follow_def Let_def split: if_splits)

lemma class_step_locals:
  assumes "class_step distance pred gt b c acc = Inr acc'"
  shows "locals_follow acc acc'"
proof -
  obtain s loc_FN loc_FP where acc: "acc = (s, loc_FN, loc_FP)" by (cases acc)
  show ?thesis
    using assms unfolding acc
    apply (simp add: class_step_def Let_def split: option.splits if_splits sum.splits prod.splits)
    apply (auto simp: locals_follow_def dest!: both_present_locals)
    done
qed

lemma class_loop_locals:
  "class_loop distance pred gt b cs acc = Inr acc' \<Longrightarrow> locals_follow acc acc'"
proof (induction cs arbitrary: acc)
  case Nil
  then show ?case by (simp add: locals_follow_refl)
next
  case (Cons c cs)
  then obtain acc1 where
    step: "class_step distance pred gt b c acc = Inr acc1"
    and rest: "class_loop distance pred gt b cs acc1 = Inr acc'"
    by (auto split: sum.splits)
  from class_step_locals [OF step] Cons.IH [OF rest]
  show ?case by (rule locals_follow_trans)
qed

lemma np_int64_id: "in_int64 x \<Longrightarrow> np_int64 x = x"
  by (simp add: np_int64_def in_int64_def)

lemma counters_le_py: "counters_le s s' \<Longrightarrow> py_counters_le s s'"
  by (simp add: counters_le_def py_counters_le_def)

lemma py_counters_le_refl: "py_counters_le s s"
  by (simp add: py_counters_le_def)

lemma py_counters_le_trans: "py_counters_le s t \<Longrightarrow> py_counters_le t u \<Longrightarrow> py_counters_le s u"
  by (auto simp: py_counters_le_def)

lemma sdi_le_trans: "sdi_le s t \<Longrightarrow> sdi_le t u \<Longrightarrow> sdi_le s u"
  by (auto simp: sdi_le_def)

lemma class_step_locals_step:
  assumes "class_step distance pred gt b c (s, loc_FN, loc_FP) = Inr (s', loc_FN', loc_FP')"
  shows "loc_FN' \<le> loc_FN + 1 \<and> loc_FP' \<le> loc_FP + 1"
  using assms
  apply (simp add: class_step_def Let_def split: option.splits if_splits sum.splits prod.splits)
  apply (auto simp: both_present_def Let_def split: if_splits)
  done

lemma class_loop_locals_bound:
  "class_loop distance pred gt b cs (s, loc_FN, loc_FP) = Inr (s', loc_FN', loc_FP') \<Longrightarrow>
     loc_FN' \<le> loc_FN + int (length cs) \<and> loc_FP' \<le> loc_FP + int (length cs)"
proof (induction cs arbitrary: s loc_FN loc_FP)
  case Nil
  then show ?case by simp
next
  case (Cons c cs)
  then obtain s1 a1 b1 where
    step: "class_step distance pred gt b c (s, loc_FN, loc_FP) = Inr (s1, a1, b1)"
    and rest: "class_loop distance pred gt b cs (s1, a1, b1) = Inr (s', loc_FN', loc_FP')"
    by (auto split: sum.splits)
  from class_step_locals_step [OF step] Cons.IH [OF rest] show ?case by simp
qed

subsection \<open>Blocks and whole calls\<close>

text \<open>
  A block that completes: the class loop's result and the three int64 sums.
\<close>

lemma block_step_Inr:
  assumes "block_step distance pred gt s b = Inr s'"
  obtains s1 loc_FN loc_FP where
    "class_loop distance pred gt b (py_range (self_nb_classes s)) (s, 0, 0)
       = Inr (s1, loc_FN, loc_FP)"
    and "s' = s1\<lparr>self_S := np_int64 (self_S s1 + min loc_FP loc_FN),
                  self_D := np_int64 (self_D s1 + max 0 (loc_FN - loc_FP)),
                  self_I := np_int64 (self_I s1 + max 0 (loc_FP - loc_FN))\<rparr>"
  using assms by (auto simp: block_step_def split: sum.splits prod.splits)

lemma block_step_nb_classes:
  assumes "block_step distance pred gt s block_cnt = Inr s'"
  shows "self_nb_classes s' = self_nb_classes s"
proof -
  from assms obtain s1 loc_FN loc_FP where
    loop: "class_loop distance pred gt block_cnt (py_range (self_nb_classes s)) (s, 0, 0)
             = Inr (s1, loc_FN, loc_FP)"
    and s': "s' = s1\<lparr>self_S := np_int64 (self_S s1 + min loc_FP loc_FN),
                     self_D := np_int64 (self_D s1 + max 0 (loc_FN - loc_FP)),
                     self_I := np_int64 (self_I s1 + max 0 (loc_FP - loc_FN))\<rparr>"
    by (rule block_step_Inr)
  from class_loop_locals [OF loop] show ?thesis
    by (simp add: s' locals_follow_def)
qed

lemma block_step_Inr_py:
  assumes "\<forall>g p. 0 \<le> distance g p"
    and "block_step distance pred gt s b = Inr s'"
  shows "py_counters_le s s'"
proof -
  from assms(2) obtain s1 loc_FN loc_FP where
    loop: "class_loop distance pred gt b (py_range (self_nb_classes s)) (s, 0, 0)
             = Inr (s1, loc_FN, loc_FP)"
    and s': "s' = s1\<lparr>self_S := np_int64 (self_S s1 + min loc_FP loc_FN),
                     self_D := np_int64 (self_D s1 + max 0 (loc_FN - loc_FP)),
                     self_I := np_int64 (self_I s1 + max 0 (loc_FP - loc_FN))\<rparr>"
    by (rule block_step_Inr)
  have "py_counters_le s s1"
    using class_loop_Inr_mono [OF assms(1) loop] by (rule counters_le_py)
  then show ?thesis
    by (simp add: s' py_counters_le_def)
qed

lemma block_step_Inl_mono:
  assumes "\<forall>g p. 0 \<le> distance g p"
    and "block_step distance pred gt s b = Inl (e, s')"
  shows "counters_le s s'"
proof -
  from assms(2) have
    "class_loop distance pred gt b (py_range (self_nb_classes s)) (s, 0, 0) = Inl (e, s')"
    by (auto simp: block_step_def split: sum.splits prod.splits)
  then show ?thesis by (rule class_loop_Inl_mono [OF assms(1)])
qed

lemma block_loop_py:
  assumes "\<forall>g p. 0 \<le> distance g p"
  shows "py_counters_le s (final_state (block_loop distance pred gt bs s))"
proof (induction bs arbitrary: s)
  case Nil
  show ?case by (simp add: final_state_def py_counters_le_refl)
next
  case (Cons b bs)
  show ?case
  proof (cases "block_step distance pred gt s b")
    case (Inl x)
    obtain e s' where x: "x = (e, s')" by (cases x)
    with Inl have "py_counters_le s s'"
      using block_step_Inl_mono [OF assms] counters_le_py by blast
    with Inl x show ?thesis by (simp add: final_state_def)
  next
    case (Inr s1)
    then have "py_counters_le s s1" using block_step_Inr_py [OF assms] by blast
    then have "py_counters_le s (final_state (block_loop distance pred gt bs s1))"
      using Cons.IH [of s1] by (rule py_counters_le_trans)
    with Inr show ?thesis by simp
  qed
qed

text \<open>The int64 counters of a block that has room.\<close>

lemma block_step_Inr_sdi:
  assumes "block_step distance pred gt s b = Inr s'"
    and "self_nb_classes s < 2 ^ 63"
    and "room (self_S s) (max 0 (self_nb_classes s))"
    and "room (self_D s) (max 0 (self_nb_classes s))"
    and "room (self_I s) (max 0 (self_nb_classes s))"
  shows "self_S s \<le> self_S s' \<and> self_S s' \<le> self_S s + max 0 (self_nb_classes s) \<and>
         self_D s \<le> self_D s' \<and> self_D s' \<le> self_D s + max 0 (self_nb_classes s) \<and>
         self_I s \<le> self_I s' \<and> self_I s' \<le> self_I s + max 0 (self_nb_classes s)"
proof -
  from assms(1) obtain s1 loc_FN loc_FP where
    loop: "class_loop distance pred gt b (py_range (self_nb_classes s)) (s, 0, 0)
             = Inr (s1, loc_FN, loc_FP)"
    and s': "s' = s1\<lparr>self_S := np_int64 (self_S s1 + min loc_FP loc_FN),
                     self_D := np_int64 (self_D s1 + max 0 (loc_FN - loc_FP)),
                     self_I := np_int64 (self_I s1 + max 0 (loc_FP - loc_FN))\<rparr>"
    by (rule block_step_Inr)
  from class_loop_locals [OF loop]
  have loc: "0 \<le> loc_FN" "0 \<le> loc_FP"
    and same: "self_S s1 = self_S s" "self_D s1 = self_D s" "self_I s1 = self_I s"
    by (simp_all add: locals_follow_def)
  from class_loop_locals_bound [OF loop]
  have le: "loc_FN \<le> max 0 (self_nb_classes s)" "loc_FP \<le> max 0 (self_nb_classes s)"
    by (simp_all add: py_range_def max_def)
  have amounts: "0 \<le> min loc_FP loc_FN" "min loc_FP loc_FN \<le> max 0 (self_nb_classes s)"
    "0 \<le> max 0 (loc_FN - loc_FP)" "max 0 (loc_FN - loc_FP) \<le> max 0 (self_nb_classes s)"
    "0 \<le> max 0 (loc_FP - loc_FN)" "max 0 (loc_FP - loc_FN) \<le> max 0 (self_nb_classes s)"
    using loc le by linarith+
  have fit: "np_int64 (x + m) = x + m"
    if "room x (max 0 (self_nb_classes s))" "0 \<le> m" "m \<le> max 0 (self_nb_classes s)" for x m
    using that by (intro np_int64_id) (simp add: room_def in_int64_def)
  show ?thesis
    using amounts
    by (simp add: s' same fit [OF assms(3)] fit [OF assms(4)] fit [OF assms(5)])
qed

lemma class_step_Inl_sdi:
  assumes "class_step distance pred gt b c (s, loc_FN, loc_FP) = Inl (e, s')"
  shows "self_S s' = self_S s \<and> self_D s' = self_D s \<and> self_I s' = self_I s"
  using assms
  apply (simp add: class_step_def Let_def split: option.splits if_splits sum.splits prod.splits)
  apply (auto dest!: both_present_Inl_mono)
  done

lemma class_loop_Inl_sdi:
  "class_loop distance pred gt b cs (s, loc_FN, loc_FP) = Inl (e, s') \<Longrightarrow>
     self_S s' = self_S s \<and> self_D s' = self_D s \<and> self_I s' = self_I s"
proof (induction cs arbitrary: s loc_FN loc_FP)
  case Nil
  then show ?case by simp
next
  case (Cons c cs)
  show ?case
  proof (cases "class_step distance pred gt b c (s, loc_FN, loc_FP)")
    case (Inl x)
    with Cons.prems have "class_step distance pred gt b c (s, loc_FN, loc_FP) = Inl (e, s')"
      by simp
    then show ?thesis by (rule class_step_Inl_sdi)
  next
    case (Inr acc)
    obtain s1 a1 b1 where acc: "acc = (s1, a1, b1)" by (cases acc)
    with Inr Cons.prems have rest: "class_loop distance pred gt b cs (s1, a1, b1) = Inl (e, s')"
      by simp
    from Inr acc have "locals_follow (s, loc_FN, loc_FP) (s1, a1, b1)"
      using class_step_locals by blast
    then show ?thesis using Cons.IH [OF rest] by (simp add: locals_follow_def)
  qed
qed

lemma block_step_Inl_sdi:
  assumes "block_step distance pred gt s b = Inl (e, s')"
  shows "sdi_le s s'"
proof -
  from assms have
    "class_loop distance pred gt b (py_range (self_nb_classes s)) (s, 0, 0) = Inl (e, s')"
    by (auto simp: block_step_def split: sum.splits prod.splits)
  from class_loop_Inl_sdi [OF this] show ?thesis by (simp add: sdi_le_def)
qed

lemma headroom_Suc:
  assumes "headroom s (Suc n)"
  shows "self_nb_classes s < 2 ^ 63"
    and "room (self_S s) (max 0 (self_nb_classes s))"
    and "room (self_D s) (max 0 (self_nb_classes s))"
    and "room (self_I s) (max 0 (self_nb_classes s))"
proof -
  have "0 \<le> int n * max 0 (self_nb_classes s)" by simp
  then have "max 0 (self_nb_classes s) \<le> int (Suc n) * max 0 (self_nb_classes s)"
    by (simp add: algebra_simps)
  with assms show "self_nb_classes s < 2 ^ 63"
    and "room (self_S s) (max 0 (self_nb_classes s))"
    and "room (self_D s) (max 0 (self_nb_classes s))"
    and "room (self_I s) (max 0 (self_nb_classes s))"
    by (auto simp: headroom_def room_def)
qed

lemma block_loop_sdi:
  "headroom s (length bs) \<Longrightarrow> sdi_le s (final_state (block_loop distance pred gt bs s))"
proof (induction bs arbitrary: s)
  case Nil
  show ?case by (simp add: final_state_def sdi_le_def)
next
  case (Cons b bs)
  from Cons.prems have hr: "headroom s (Suc (length bs))" by simp
  show ?case
  proof (cases "block_step distance pred gt s b")
    case (Inl x)
    obtain e s' where x: "x = (e, s')" by (cases x)
    with Inl have "sdi_le s s'" using block_step_Inl_sdi by blast
    with Inl x show ?thesis by (simp add: final_state_def)
  next
    case (Inr s1)
    note step = block_step_Inr_sdi [OF Inr headroom_Suc [OF hr]]
    have nb: "self_nb_classes s1 = self_nb_classes s"
      using Inr by (rule block_step_nb_classes)
    have "headroom s1 (length bs)"
      using hr step
      by (auto simp: headroom_def room_def nb algebra_simps)
    then have "sdi_le s1 (final_state (block_loop distance pred gt bs s1))"
      by (rule Cons.IH)
    moreover have "sdi_le s s1" using step by (simp add: sdi_le_def)
    ultimately have "sdi_le s (final_state (block_loop distance pred gt bs s1))"
      using sdi_le_trans by blast
    with Inr show ?thesis by simp
  qed
qed

lemma cartesian_nonneg: "0 \<le> distance_between_cartesian_coordinates x1 y1 z1 x2 y2 z2"
proof -
  define d where "d = np_clip (sqrt ((x1 - x2) ^ 2 + (y1 - y2) ^ 2 + (z1 - z2) ^ 2)) (- 1) 1"
  have "0 \<le> d" "d \<le> 1"
    by (simp_all add: d_def np_clip_def le_max_iff_disj)
  then have "0 \<le> arcsin (d / 2)"
    by (intro arcsin_nonneg) simp
  then show ?thesis
    by (simp add: distance_between_cartesian_coordinates_def Let_def d_def)
qed

lemma spherical_nonneg: "0 \<le> distance_between_spherical_coordinates_rad az1 ele1 az2 ele2"
proof -
  define d where
    "d = np_clip (sin ele1 * sin ele2 + cos ele1 * cos ele2 * cos \<bar>az1 - az2\<bar>) (- 1) 1"
  have "- 1 \<le> d" "d \<le> 1"
    by (simp_all add: d_def np_clip_def)
  then have "0 \<le> arccos d"
    by (rule arccos_lbound)
  then show ?thesis
    by (simp add: distance_between_spherical_coordinates_rad_def Let_def d_def)
qed

text \<open>
  Claim C8, as the code has it. For every starting state and every input with real
  coordinates, whether the call returns or raises, TP, FP, TN, FN, Nref, Nsys, DE\_TP and the
  total angular error after \<open>update_seld_scores_xyz\<close> or \<open>update_seld_scores\<close> are at least
  their values before. S, D and I are int64 sums: they are at least their values before
  when they start as int64 values with room for the blocks of the call, each block adding at
  most the number of classes, of which there are fewer than \<open>2 ^ 63\<close>.
\<close>

theorem ingestion_monotone:
  "py_counters_le s (final_state (update_seld_scores_xyz s pred gt))
   \<and> py_counters_le s (final_state (update_seld_scores s pred_deg gt_deg))
   \<and> (headroom s (dict_len gt) \<longrightarrow>
        sdi_le s (final_state (update_seld_scores_xyz s pred gt)))
   \<and> (headroom s (dict_len gt_deg) \<longrightarrow>
        sdi_le s (final_state (update_seld_scores s pred_deg gt_deg)))"
proof -
  have "\<forall>g p. 0 \<le> dist_xyz g p"
    by (simp add: dist_xyz_def cartesian_nonneg split: prod.splits)
  moreover have "\<forall>g p. 0 \<le> dist_deg g p"
    by (simp add: dist_deg_def spherical_nonneg split: prod.splits)
  moreover have "length (py_range (int n)) = n" for n
    by (simp add: py_range_def)
  ultimately show ?thesis
    by (simp add: update_seld_scores_xyz_def update_seld_scores_def update_scores_def
        block_loop_py block_loop_sdi)
qed

lemma py_range_1: "py_range 1 = [0]"
  by (simp add: py_range_def)

lemma py_range_3: "py_range 3 = [0, 1, 2]"
  by (simp add: py_range_def eval_nat_numeral)

lemma example_empty_pred:
  "update_seld_scores_xyz example_state [(0, [])] example_gt
     = Inr (example_state\<lparr>self_TN := 2, self_FN := 1, self_D := 1, self_Nref := 1\<rparr>)"
  by (simp add: update_seld_scores_xyz_def update_scores_def dict_len_def example_gt_def
      py_range_1 block_step_def py_range_3 example_state_def np_int64_def
      SELDMetrics_init_def class_step_def dict_get_def dict_in_def)

theorem ingestion_monotone_witness:
  "headroom example_state (dict_len example_gt)
   \<and> sdi_le example_state (final_state (update_seld_scores_xyz example_state [(0, [])] example_gt))
   \<and> self_D (final_state (update_seld_scores_xyz example_state [(0, [])] example_gt)) = 1"
proof -
  have h: "headroom example_state (dict_len example_gt)"
    by (simp add: headroom_def room_def example_state_def SELDMetrics_init_def dict_len_def
        example_gt_def)
  from ingestion_monotone [of example_state "[(0, [])]" example_gt "[]" deg_gt] h
  show ?thesis
    by (simp add: example_empty_pred final_state_def)
qed

text \<open>
  Claim C8 as stated fails: from \<open>D = 2 ^ 63 - 1\<close> a block with one false negative leaves
  \<open>D = - (2 ^ 63)\<close>.
\<close>

theorem ingestion_monotone_counterexample:
  "update_seld_scores_xyz (example_state\<lparr>self_D := 9223372036854775807\<rparr>) [(0, [])] example_gt
     = Inr (example_state\<lparr>self_TN := 2, self_FN := 1, self_D := - 9223372036854775808,
              self_Nref := 1\<rparr>)
   \<and> self_D (final_state (update_seld_scores_xyz
          (example_state\<lparr>self_D := 9223372036854775807\<rparr>) [(0, [])] example_gt))
       < self_D (example_state\<lparr>self_D := 9223372036854775807\<rparr>)"
proof -
  have run: "update_seld_scores_xyz (example_state\<lparr>self_D := 9223372036854775807\<rparr>)
      [(0, [])] example_gt
     = Inr (example_state\<lparr>self_TN := 2, self_FN := 1, self_D := - 9223372036854775808,
              self_Nref := 1\<rparr>)"
    by (simp add: update_seld_scores_xyz_def update_scores_def dict_len_def example_gt_def
        py_range_1 block_step_def py_range_3 example_state_def np_int64_def
        SELDMetrics_init_def class_step_def dict_get_def dict_in_def)
  then show ?thesis
    by (simp add: final_state_def)
qed

subsection \<open>The frame loop\<close>

lemma list_index_None: "list_index xs v = None \<longleftrightarrow> v \<notin> set xs"
  by (induction xs) auto

lemma frame_loop_count:
  "frame_loop distance gl pil pl fs (t, n) = Inr (t', n') \<Longrightarrow>
     n' = n + int (length (filter (\<lambda>v. v \<in> set pil) (map snd fs)))"
proof (induction fs arbitrary: t n)
  case Nil
  then show ?case by simp
next
  case (Cons f fs)
  obtain i v where f: "f = (i, v)" by (cases f)
  show ?case
  proof (cases "list_index pil v")
    case None
    then have "v \<notin> set pil" by (simp add: list_index_None)
    with Cons f None show ?thesis by simp
  next
    case (Some j)
    then have "v \<in> set pil" using list_index_None [of pil v] by auto
    moreover from Cons.prems f Some obtain d where
      "frame_loop distance gl pil pl fs (t + d, n + 1) = Inr (t', n')"
      by (auto split: option.splits)
    ultimately show ?thesis using Cons.IH f by fastforce
  qed
qed

lemma matched_distance_count:
  assumes "matched_distance distance ((gt_ind_list, gt_list) # gts) ((pred_ind_list, pred_list) # pts)
             = Inr (t, n)"
  shows "n = int (length (filter (\<lambda>v. v \<in> set pred_ind_list) gt_ind_list))"
  using assms
  by (auto simp: matched_distance_def split: if_splits dest!: frame_loop_count)

text \<open>
  The frame loop counts a frame whenever it adds a distance, so a count of zero comes with a
  sum of zero and the first branch is taken: no iteration raises \<open>ZeroDivisionError\<close>.
\<close>

lemma frame_loop_no_match:
  "frame_loop distance gl pil pl fs (t, n) = Inr (t', n) \<Longrightarrow> t' = t"
proof (induction fs arbitrary: t n)
  case Nil
  then show ?case by simp
next
  case (Cons f fs)
  obtain i v where f: "f = (i, v)" by (cases f)
  show ?case
  proof (cases "list_index pil v")
    case None
    with Cons f show ?thesis by simp
  next
    case (Some j)
    with Cons.prems f obtain d where
      "frame_loop distance gl pil pl fs (t + d, n + 1) = Inr (t', n)"
      by (auto split: option.splits)
    from frame_loop_count [OF this] show ?thesis by simp
  qed
qed

lemma matched_distance_no_match:
  "matched_distance distance gt_tracks pred_tracks = Inr (t, 0) \<Longrightarrow> t = 0"
  by (auto simp: matched_distance_def split: list.splits if_splits dest!: frame_loop_no_match)

lemma frame_loop_error:
  "frame_loop distance gl pil pl fs acc = Inl e \<Longrightarrow> e = IndexError"
proof (induction fs arbitrary: acc)
  case Nil
  then show ?case by simp
next
  case (Cons f fs)
  obtain i v where f: "f = (i, v)" by (cases f)
  obtain t n where acc: "acc = (t, n)" by (cases acc)
  from Cons.prems show ?case
    unfolding f acc
    by (auto split: option.splits dest: Cons.IH)
qed

lemma matched_distance_error:
  "matched_distance distance gt_tracks pred_tracks = Inl e \<Longrightarrow> e \<noteq> ZeroDivisionError"
  by (auto simp: matched_distance_def split: list.splits if_splits dest!: frame_loop_error)

lemma both_present_error:
  "both_present s loc_FN loc_FP t n = Inl (e, s') \<Longrightarrow> n = 0 \<and> t \<noteq> 0"
  by (auto simp: both_present_def Let_def split: if_splits)

lemma class_step_no_ZeroDivisionError:
  "class_step distance pred gt block_cnt class_cnt acc \<noteq> Inl (ZeroDivisionError, s')"
proof
  assume raised: "class_step distance pred gt block_cnt class_cnt acc = Inl (ZeroDivisionError, s')"
  obtain s loc_FN loc_FP where acc: "acc = (s, loc_FN, loc_FP)" by (cases acc)
  from raised show False
    unfolding acc class_step_def
    by (auto simp: Let_def split: option.splits if_splits sum.splits prod.splits
        dest: matched_distance_error both_present_error matched_distance_no_match)
qed

lemma list_index_bound: "list_index xs v = Some j \<Longrightarrow> j < length xs"
  by (induction xs arbitrary: j) (auto split: if_splits)

lemma frame_loop_returns:
  assumes "length pil \<le> length pl"
  shows "\<forall>f \<in> set fs. fst f < length gl \<Longrightarrow> \<exists>r. frame_loop distance gl pil pl fs acc = Inr r"
proof (induction fs arbitrary: acc)
  case Nil
  show ?case by simp
next
  case (Cons f fs)
  obtain i v where f: "f = (i, v)" by (cases f)
  obtain t n where acc: "acc = (t, n)" by (cases acc)
  from Cons.prems f have i: "i < length gl" and rest: "\<forall>f \<in> set fs. fst f < length gl"
    by simp_all
  show ?case
  proof (cases "list_index pil v")
    case None
    with Cons.IH [OF rest] show ?thesis by (simp add: f acc)
  next
    case (Some j)
    then have "j < length pl" using list_index_bound assms by fastforce
    with Some i Cons.IH [OF rest] show ?thesis
      by (simp add: f acc array_get_def)
  qed
qed

lemma matched_distance_returns:
  assumes "aligned gt_tracks" and "aligned pred_tracks"
  shows "\<exists>t n. matched_distance distance gt_tracks pred_tracks = Inr (t, n)"
proof -
  from assms(1) obtain gil gl gts where
    g: "gt_tracks = (gil, gl) # gts" "gl \<noteq> []" "length gil \<le> length gl"
    by (auto simp: aligned_def split: list.splits)
  from assms(2) obtain pil pl pts where
    p: "pred_tracks = (pil, pl) # pts" "pl \<noteq> []" "length pil \<le> length pl"
    by (auto simp: aligned_def split: list.splits)
  have "\<forall>f \<in> set (enumerate 0 gil). fst f < length gl"
    using g(3) by (auto simp: in_set_enumerate_eq)
  from frame_loop_returns [OF p(3) this, of distance "(0, 0)"] show ?thesis
    by (auto simp: matched_distance_def g p)
qed

subsection \<open>One outcome for every class of every block\<close>

lemma both_present_outcome:
  "both_present s loc_FN loc_FP t n = Inr (s', loc_FN', loc_FP') \<Longrightarrow>
     outcome s s' = (1, 0, 0, 0) \<or> outcome s s' = (0, 0, 0, 1)"
  by (auto simp: both_present_def outcome_def Let_def split: if_splits)

lemma class_step_outcome_present:
  assumes "class_step distance pred gt block_cnt class_cnt (s, loc_FN, loc_FP)
             = Inr (s', loc_FN', loc_FP')"
  shows "outcome s s' \<in>
     (if present gt block_cnt class_cnt
      then (if present pred block_cnt class_cnt
            then {(1, 0, 0, 0), (0, 0, 0, 1)} else {(0, 0, 0, 1)})
      else (if present pred block_cnt class_cnt then {(0, 1, 0, 0)} else {(0, 0, 1, 0)}))"
  using assms unfolding class_step_def present_def
  apply (simp add: Let_def split: option.splits if_splits sum.splits prod.splits)
     apply (auto simp: outcome_def dest!: both_present_outcome)
  done

lemma class_step_Inl_outcome:
  assumes "class_step distance pred gt block_cnt class_cnt (s, loc_FN, loc_FP) = Inl (e, s')"
  shows "outcome s s' = (0, 0, 0, 0)"
  using assms
  apply (simp add: class_step_def Let_def split: option.splits if_splits sum.splits prod.splits)
  apply (auto simp: outcome_def dest!: both_present_Inl_mono)
  done

lemma both_present_returns:
  "n = 0 \<longrightarrow> t = 0 \<Longrightarrow> \<exists>r. both_present s loc_FN loc_FP t n = Inr r"
  by (auto simp: both_present_def Let_def)

lemma class_step_returns:
  assumes "dict_get gt block_cnt = Some gt_block"
    and "dict_get pred block_cnt = Some pred_block"
    and "\<forall>gt_tracks pred_tracks.
           dict_get gt_block class_cnt = Some gt_tracks \<and>
           dict_get pred_block class_cnt = Some pred_tracks
           \<longrightarrow> aligned gt_tracks \<and> aligned pred_tracks"
  shows "\<exists>r. class_step distance pred gt block_cnt class_cnt (s, loc_FN, loc_FP) = Inr r"
proof (cases "dict_in class_cnt gt_block \<and> dict_in class_cnt pred_block")
  case False
  then show ?thesis
    by (auto simp: class_step_def assms(1,2) Let_def)
next
  case True
  then obtain gts pts where
    tr: "dict_get gt_block class_cnt = Some gts" "dict_get pred_block class_cnt = Some pts"
    by (auto simp: dict_in_def)
  with assms(3) have "aligned gts" "aligned pts" by auto
  from matched_distance_returns [OF this, of distance] obtain t n where
    m: "matched_distance distance gts pts = Inr (t, n)" by auto
  have "n = 0 \<longrightarrow> t = 0"
    using m matched_distance_no_match by blast
  from both_present_returns [OF this] show ?thesis
    by (simp add: class_step_def assms(1,2) Let_def True tr m)
qed

lemma count_pairs_Nil [simp]: "count_pairs P [] cs = 0"
  by (simp add: count_pairs_def)

lemma count_pairs_no_class [simp]: "count_pairs P bs [] = 0"
  by (induction bs) (simp_all add: count_pairs_def)

lemma count_pairs_block:
  "count_pairs P (b # bs) cs = count_pairs P [b] cs + count_pairs P bs cs"
  by (simp add: count_pairs_def)

lemma count_pairs_class:
  "count_pairs P [b] (c # cs) = (if P b c then 1 else 0) + count_pairs P [b] cs"
  by (simp add: count_pairs_def)

lemma outcomes_counted_none: "outcomes_counted pred gt bs [] s s"
  by (simp add: outcomes_counted_def)

lemma outcomes_counted_no_block: "outcomes_counted pred gt [] cs s s"
  by (simp add: outcomes_counted_def)

lemma outcomes_counted_class:
  assumes "outcomes_counted pred gt [b] [c] s s1" and "outcomes_counted pred gt [b] cs s1 s'"
  shows "outcomes_counted pred gt [b] (c # cs) s s'"
  using assms unfolding outcomes_counted_def count_pairs_class [of _ b c cs]
  by (simp add: count_pairs_class)

lemma outcomes_counted_block:
  assumes "outcomes_counted pred gt [b] cs s s1" and "outcomes_counted pred gt bs cs s1 s'"
  shows "outcomes_counted pred gt (b # bs) cs s s'"
  using assms unfolding outcomes_counted_def count_pairs_block [of _ b bs cs]
  by simp

lemma class_step_counted:
  assumes "class_step distance pred gt b c (s, loc_FN, loc_FP) = Inr (s', loc_FN', loc_FP')"
  shows "outcomes_counted pred gt [b] [c] s s'"
  using class_step_outcome_present [OF assms]
  by (auto simp: outcomes_counted_def count_pairs_class outcome_def split: if_splits)

lemma class_loop_counted:
  "class_loop distance pred gt b cs (s, loc_FN, loc_FP) = Inr (s', loc_FN', loc_FP')
     \<Longrightarrow> outcomes_counted pred gt [b] cs s s'"
proof (induction cs arbitrary: s loc_FN loc_FP)
  case Nil
  then show ?case by (simp add: outcomes_counted_none)
next
  case (Cons c cs)
  then obtain s1 a1 b1 where
    step: "class_step distance pred gt b c (s, loc_FN, loc_FP) = Inr (s1, a1, b1)"
    and rest: "class_loop distance pred gt b cs (s1, a1, b1) = Inr (s', loc_FN', loc_FP')"
    by (auto split: sum.splits)
  from class_step_counted [OF step] Cons.IH [OF rest]
  show ?case by (rule outcomes_counted_class)
qed

lemma block_step_counted:
  assumes "block_step distance pred gt s b = Inr s'"
  shows "outcomes_counted pred gt [b] (py_range (self_nb_classes s)) s s'"
proof -
  from assms obtain s1 loc_FN loc_FP where
    loop: "class_loop distance pred gt b (py_range (self_nb_classes s)) (s, 0, 0)
             = Inr (s1, loc_FN, loc_FP)"
    and s': "s' = s1\<lparr>self_S := np_int64 (self_S s1 + min loc_FP loc_FN),
                     self_D := np_int64 (self_D s1 + max 0 (loc_FN - loc_FP)),
                     self_I := np_int64 (self_I s1 + max 0 (loc_FP - loc_FN))\<rparr>"
    by (rule block_step_Inr)
  from class_loop_counted [OF loop] show ?thesis
    by (simp add: s' outcomes_counted_def)
qed

lemma block_loop_counted:
  "block_loop distance pred gt bs s = Inr s'
     \<Longrightarrow> outcomes_counted pred gt bs (py_range (self_nb_classes s)) s s'"
proof (induction bs arbitrary: s)
  case Nil
  then show ?case by (simp add: outcomes_counted_no_block)
next
  case (Cons b bs)
  then obtain s1 where
    step: "block_step distance pred gt s b = Inr s1"
    and rest: "block_loop distance pred gt bs s1 = Inr s'"
    by (auto split: sum.splits)
  have nb: "self_nb_classes s1 = self_nb_classes s"
    using step by (rule block_step_nb_classes)
  from block_step_counted [OF step] Cons.IH [OF rest]
  show ?case unfolding nb by (rule outcomes_counted_block)
qed

lemma update_scores_counted:
  assumes "update_scores distance s pred gt = Inr s'"
  shows "outcomes_counted pred gt (py_range (int (dict_len gt))) (py_range (self_nb_classes s))
           s s'"
  using assms unfolding update_scores_def by (rule block_loop_counted)

text \<open>
  Claim C7, as the code has it. An iteration of the class loop that completes counts exactly
  one outcome, fixed by whether the class is in the ground truth and in the prediction of the
  block: both gives TP or FN, ground truth only FN, prediction only FP, neither TN; an
  iteration that raises counts none. The iteration completes when both blocks exist and, for
  a class in both, the tracks are aligned. A call that returns has visited every pair of a
  block index below the number of ground-truth blocks and a class index below the number of
  classes once: its increments of FP, TN and TP + FN are the numbers of pairs of each kind.
\<close>

theorem every_pair_one_outcome:
  "(class_step distance pred gt block_cnt class_cnt (s, loc_FN, loc_FP)
        = Inr (s1, loc_FN', loc_FP') \<longrightarrow>
      outcome s s1 \<in>
        (if present gt block_cnt class_cnt
         then (if present pred block_cnt class_cnt
               then {(1, 0, 0, 0), (0, 0, 0, 1)} else {(0, 0, 0, 1)})
         else (if present pred block_cnt class_cnt then {(0, 1, 0, 0)} else {(0, 0, 1, 0)})))
   \<and> (class_step distance pred gt block_cnt class_cnt (s, loc_FN, loc_FP) = Inl (e, s1) \<longrightarrow>
        outcome s s1 = (0, 0, 0, 0))
   \<and> (dict_get gt block_cnt = Some gt_block \<and> dict_get pred block_cnt = Some pred_block \<and>
       (\<forall>gt_tracks pred_tracks.
           dict_get gt_block class_cnt = Some gt_tracks \<and>
           dict_get pred_block class_cnt = Some pred_tracks
           \<longrightarrow> aligned gt_tracks \<and> aligned pred_tracks) \<longrightarrow>
        (\<exists>r. class_step distance pred gt block_cnt class_cnt (s, loc_FN, loc_FP) = Inr r))
   \<and> (update_seld_scores_xyz s pred_xyz gt_xyz = Inr s' \<longrightarrow>
        outcomes_counted pred_xyz gt_xyz (py_range (int (dict_len gt_xyz)))
          (py_range (self_nb_classes s)) s s')
   \<and> (update_seld_scores s pred_deg gt_deg = Inr s'' \<longrightarrow>
        outcomes_counted pred_deg gt_deg (py_range (int (dict_len gt_deg)))
          (py_range (self_nb_classes s)) s s'')"
  using class_step_outcome_present [of distance pred gt block_cnt class_cnt s loc_FN loc_FP s1
      loc_FN' loc_FP']
    class_step_Inl_outcome [of distance pred gt block_cnt class_cnt s loc_FN loc_FP e s1]
    class_step_returns [of gt block_cnt gt_block pred pred_block class_cnt distance s loc_FN loc_FP]
    update_scores_counted [of dist_xyz s pred_xyz gt_xyz s']
    update_scores_counted [of dist_deg s pred_deg gt_deg s'']
  unfolding update_seld_scores_xyz_def update_seld_scores_def
  by blast

theorem every_pair_one_outcome_witness:
  "class_step dist_xyz [(0, [(2, example_track)])] [(0, [(0, example_track), (1, example_track)])]
       0 0 (example_state, 0, 0)
     = Inr (example_state\<lparr>self_FN := 1, self_Nref := 1\<rparr>, 1, 0)
   \<and> outcome example_state (example_state\<lparr>self_FN := 1, self_Nref := 1\<rparr>) \<in> {(0, 0, 0, 1)}
   \<and> update_seld_scores_xyz example_state [(0, [(2, example_track)])]
        [(0, [(0, example_track), (1, example_track)])]
     = Inr (example_state\<lparr>self_FP := 1, self_FN := 2, self_S := 1, self_D := 1,
              self_Nref := 2, self_Nsys := 1\<rparr>)
   \<and> outcomes_counted [(0, [(2, example_track)])] [(0, [(0, example_track), (1, example_track)])]
        [0] [0, 1, 2] example_state
        (example_state\<lparr>self_FP := 1, self_FN := 2, self_S := 1, self_D := 1,
              self_Nref := 2, self_Nsys := 1\<rparr>)
   \<and> count_pairs (\<lambda>b c. present [(0, [(0, example_track), (1, example_track)])] b c)
        [0] [0, 1, 2] = 2
   \<and> (\<exists>r. class_step dist_xyz [(0, [(0, example_track)])] example_gt 0 0 (example_state, 0, 0)
          = Inr r)"
proof -
  have step: "class_step dist_xyz [(0, [(2, example_track)])]
       [(0, [(0, example_track), (1, example_track)])] 0 0 (example_state, 0, 0)
     = Inr (example_state\<lparr>self_FN := 1, self_Nref := 1\<rparr>, 1, 0)"
    by (simp add: class_step_def dict_get_def dict_in_def example_state_def SELDMetrics_init_def)
  have pres: "present [(0, [(0, example_track), (1, example_track)])] 0 0"
    "\<not> present [(0, [(2, example_track)])] 0 (0::int)"
    by (simp_all add: present_def dict_get_def dict_in_def)
  have call: "update_seld_scores_xyz example_state [(0, [(2, example_track)])]
        [(0, [(0, example_track), (1, example_track)])]
     = Inr (example_state\<lparr>self_FP := 1, self_FN := 2, self_S := 1, self_D := 1,
              self_Nref := 2, self_Nsys := 1\<rparr>)"
    by (simp add: update_seld_scores_xyz_def update_scores_def dict_len_def py_range_1
        block_step_def py_range_3 class_step_def dict_get_def dict_in_def np_int64_def
        example_state_def SELDMetrics_init_def)
  have rng: "py_range (int (dict_len [(0::int, [(0::int, example_track), (1, example_track)])])) = [0]"
    "py_range (self_nb_classes example_state) = [0, 1, 2]"
    by (simp_all add: dict_len_def py_range_1 py_range_3 example_state_def SELDMetrics_init_def)
  have cnt: "count_pairs (\<lambda>b c. present [(0, [(0, example_track), (1, example_track)])] b c)
        [0] [0, 1, 2] = 2"
    by (simp add: count_pairs_def present_def dict_get_def dict_in_def)
  have g: "dict_get example_gt 0 = Some [(0, example_track)]"
    and p: "dict_get [(0, [(0, example_track)])] (0::int) = Some [(0::int, example_track)]"
    by (simp_all add: dict_get_def example_gt_def)
  have al: "\<forall>gt_tracks pred_tracks.
       dict_get [(0::int, example_track)] 0 = Some gt_tracks \<and>
       dict_get [(0::int, example_track)] 0 = Some pred_tracks
       \<longrightarrow> aligned gt_tracks \<and> aligned pred_tracks"
    by (simp add: dict_get_def aligned_def example_track_def)
  from every_pair_one_outcome [where distance = dist_xyz
      and pred = "[(0, [(2, example_track)])]"
      and gt = "[(0, [(0, example_track), (1, example_track)])]"
      and block_cnt = 0 and class_cnt = 0 and s = example_state and loc_FN = 0 and loc_FP = 0
      and ?s1.0 = "example_state\<lparr>self_FN := 1, self_Nref := 1\<rparr>"
      and loc_FN' = 1 and loc_FP' = 0
      and pred_xyz = "[(0, [(2, example_track)])]"
      and gt_xyz = "[(0, [(0, example_track), (1, example_track)])]"
      and s' = "example_state\<lparr>self_FP := 1, self_FN := 2, self_S := 1, self_D := 1,
              self_Nref := 2, self_Nsys := 1\<rparr>"]
  have a: "outcome example_state (example_state\<lparr>self_FN := 1, self_Nref := 1\<rparr>) \<in> {(0, 0, 0, 1)}"
    and b: "outcomes_counted [(0, [(2, example_track)])]
        [(0, [(0, example_track), (1, example_track)])] [0] [0, 1, 2] example_state
        (example_state\<lparr>self_FP := 1, self_FN := 2, self_S := 1, self_D := 1,
              self_Nref := 2, self_Nsys := 1\<rparr>)"
    using step pres call rng by simp_all
  from every_pair_one_outcome [where distance = dist_xyz
      and pred = "[(0, [(0, example_track)])]" and gt = example_gt
      and block_cnt = 0 and class_cnt = 0 and s = example_state and loc_FN = 0 and loc_FP = 0
      and gt_block = "[(0, example_track)]" and pred_block = "[(0, example_track)]"] g p al
  have c: "\<exists>r. class_step dist_xyz [(0, [(0, example_track)])] example_gt 0 0 (example_state, 0, 0)
          = Inr r"
    by blast
  show ?thesis
    using step a call b cnt c by simp
qed

text \<open>
  Claim C7 as stated fails: a class in both blocks whose ground-truth track list is empty is
  counted in Nref and Nsys, then \<open>[0]\<close> raises \<open>IndexError\<close> and none of the four outcomes is
  counted.
\<close>

theorem every_pair_one_outcome_counterexample:
  "class_step dist_xyz [(0, [(0, example_track)])] [(0, [(0, [])])] 0 0 (example_state, 0, 0)
     = Inl (IndexError, example_state\<lparr>self_Nref := 1, self_Nsys := 1\<rparr>)
   \<and> outcome example_state (example_state\<lparr>self_Nref := 1, self_Nsys := 1\<rparr>) = (0, 0, 0, 0)
   \<and> update_seld_scores_xyz example_state [(0, [(0, example_track)])] [(0, [(0, [])])]
     = Inl (IndexError, example_state\<lparr>self_Nref := 1, self_Nsys := 1\<rparr>)"
  by (simp add: update_seld_scores_xyz_def update_scores_def dict_len_def py_range_1
      block_step_def py_range_3 class_step_def dict_get_def dict_in_def matched_distance_def
      outcome_def example_state_def SELDMetrics_init_def)

subsection \<open>Substitutions, deletions and insertions of a block\<close>

text \<open>
  Claim C6, as the code has it. When the class loop of a block ends with the locals \<open>loc_FN\<close>
  and \<open>loc_FP\<close>, the block adds \<open>min loc_FP loc_FN\<close> to S, \<open>max 0 (loc_FN - loc_FP)\<close> to D and
  \<open>max 0 (loc_FP - loc_FN)\<close> to I in int64 arithmetic. The three amounts are not negative,
  the first two sum to \<open>loc_FN\<close>, the first and the third to \<open>loc_FP\<close>, and the locals are the
  increments of the global FN and FP over the block. Where the counters are int64 values and
  the sums stay below \<open>2 ^ 63\<close>, with fewer than \<open>2 ^ 63\<close> classes, the counters grow by
  exactly these amounts and do not decrease.
\<close>

theorem block_step_error_rate_counters:
  assumes "class_loop distance pred gt block_cnt (py_range (self_nb_classes s)) (s, 0, 0)
             = Inr (s1, loc_FN, loc_FP)"
  shows "\<exists>s'. block_step distance pred gt s block_cnt = Inr s' \<and>
           self_S s' = np_int64 (self_S s + min loc_FP loc_FN) \<and>
           self_D s' = np_int64 (self_D s + max 0 (loc_FN - loc_FP)) \<and>
           self_I s' = np_int64 (self_I s + max 0 (loc_FP - loc_FN)) \<and>
           min loc_FP loc_FN + max 0 (loc_FN - loc_FP) = loc_FN \<and>
           min loc_FP loc_FN + max 0 (loc_FP - loc_FN) = loc_FP \<and>
           0 \<le> min loc_FP loc_FN \<and> 0 \<le> max 0 (loc_FN - loc_FP) \<and>
           0 \<le> max 0 (loc_FP - loc_FN) \<and>
           loc_FN = self_FN s' - self_FN s \<and> loc_FP = self_FP s' - self_FP s \<and>
           (self_nb_classes s < 2 ^ 63 \<and> room (self_S s) (min loc_FP loc_FN) \<and>
            room (self_D s) (max 0 (loc_FN - loc_FP)) \<and>
            room (self_I s) (max 0 (loc_FP - loc_FN)) \<longrightarrow>
              self_S s' = self_S s + min loc_FP loc_FN \<and>
              self_D s' = self_D s + max 0 (loc_FN - loc_FP) \<and>
              self_I s' = self_I s + max 0 (loc_FP - loc_FN) \<and>
              (self_S s' - self_S s) + (self_D s' - self_D s) = loc_FN \<and>
              (self_S s' - self_S s) + (self_I s' - self_I s) = loc_FP \<and>
              self_S s \<le> self_S s' \<and> self_D s \<le> self_D s' \<and> self_I s \<le> self_I s')"
proof -
  have inv: "locals_follow (s, 0, 0) (s1, loc_FN, loc_FP)"
    using assms by (rule class_loop_locals)
  then have loc: "loc_FN = self_FN s1 - self_FN s" "loc_FP = self_FP s1 - self_FP s"
    "0 \<le> loc_FN" "0 \<le> loc_FP"
    and same: "self_S s1 = self_S s" "self_D s1 = self_D s" "self_I s1 = self_I s"
    by (simp_all add: locals_follow_def)
  define s' where "s' = s1\<lparr>self_S := np_int64 (self_S s1 + min loc_FP loc_FN),
      self_D := np_int64 (self_D s1 + max 0 (loc_FN - loc_FP)),
      self_I := np_int64 (self_I s1 + max 0 (loc_FP - loc_FN))\<rparr>"
  have run: "block_step distance pred gt s block_cnt = Inr s'"
    by (simp add: block_step_def assms s'_def)
  have upd: "self_S s' = np_int64 (self_S s + min loc_FP loc_FN)"
    "self_D s' = np_int64 (self_D s + max 0 (loc_FN - loc_FP))"
    "self_I s' = np_int64 (self_I s + max 0 (loc_FP - loc_FN))"
    "self_FN s' = self_FN s1" "self_FP s' = self_FP s1"
    by (simp_all add: s'_def same)
  have sums: "min loc_FP loc_FN + max 0 (loc_FN - loc_FP) = loc_FN"
    "min loc_FP loc_FN + max 0 (loc_FP - loc_FN) = loc_FP"
    "0 \<le> min loc_FP loc_FN" "0 \<le> max 0 (loc_FN - loc_FP)" "0 \<le> max 0 (loc_FP - loc_FN)"
    using loc(3,4) by linarith+
  have fit: "np_int64 (x + m) = x + m" if "room x m" "0 \<le> m" for x m
    using that by (intro np_int64_id) (simp add: room_def in_int64_def)
  have exact: "self_S s' = self_S s + min loc_FP loc_FN \<and>
      self_D s' = self_D s + max 0 (loc_FN - loc_FP) \<and>
      self_I s' = self_I s + max 0 (loc_FP - loc_FN) \<and>
      (self_S s' - self_S s) + (self_D s' - self_D s) = loc_FN \<and>
      (self_S s' - self_S s) + (self_I s' - self_I s) = loc_FP \<and>
      self_S s \<le> self_S s' \<and> self_D s \<le> self_D s' \<and> self_I s \<le> self_I s'"
    if "room (self_S s) (min loc_FP loc_FN)" "room (self_D s) (max 0 (loc_FN - loc_FP))"
      "room (self_I s) (max 0 (loc_FP - loc_FN))"
    using sums by (simp add: upd fit [OF that(1)] fit [OF that(2)] fit [OF that(3)])
  show ?thesis
    using run upd sums loc(1,2) exact by (intro exI [of _ s']) simp
qed

theorem block_step_error_rate_counters_witness:
  "class_loop dist_xyz [(0, [(2, example_track)])] [(0, [(0, example_track), (1, example_track)])] 0
       (py_range (self_nb_classes example_state)) (example_state, 0, 0)
     = Inr (example_state\<lparr>self_FP := 1, self_FN := 2, self_Nref := 2, self_Nsys := 1\<rparr>, 2, 1)
   \<and> self_nb_classes example_state < 2 ^ 63
   \<and> room (self_S example_state) (min 1 2)
   \<and> room (self_D example_state) (max 0 (2 - 1))
   \<and> room (self_I example_state) (max 0 (1 - 2))
   \<and> (\<exists>s'. block_step dist_xyz [(0, [(2, example_track)])]
               [(0, [(0, example_track), (1, example_track)])] example_state 0 = Inr s'
          \<and> self_S s' = 1 \<and> self_D s' = 1 \<and> self_I s' = 0
          \<and> self_FN s' = 2 \<and> self_FP s' = 1)"
proof -
  have loop: "class_loop dist_xyz [(0, [(2, example_track)])]
       [(0, [(0, example_track), (1, example_track)])] 0
       (py_range (self_nb_classes example_state)) (example_state, 0, 0)
     = Inr (example_state\<lparr>self_FP := 1, self_FN := 2, self_Nref := 2, self_Nsys := 1\<rparr>, 2, 1)"
    by (simp add: example_state_def SELDMetrics_init_def py_range_3 class_step_def
        dict_get_def dict_in_def)
  have r: "self_nb_classes example_state < 2 ^ 63" "room (self_S example_state) (min 1 2)"
    "room (self_D example_state) (max 0 (2 - 1))" "room (self_I example_state) (max 0 (1 - 2))"
    by (simp_all add: room_def example_state_def SELDMetrics_init_def)
  from block_step_error_rate_counters [OF loop] loop r show ?thesis
    by (auto simp: example_state_def SELDMetrics_init_def)
qed

text \<open>
  Claim C6 as stated fails: from \<open>S = 2 ^ 63 - 1\<close> a block with one false positive and one
  false negative leaves \<open>S = - (2 ^ 63)\<close>, which is negative and is not \<open>S + min fp fn\<close>.
\<close>

theorem block_step_error_rate_counters_counterexample:
  "block_step dist_xyz [(0, [(1, example_track)])] example_gt
       (example_state\<lparr>self_S := 9223372036854775807\<rparr>) 0
     = Inr (example_state\<lparr>self_FP := 1, self_TN := 1, self_FN := 1,
              self_S := - 9223372036854775808, self_Nref := 1, self_Nsys := 1\<rparr>)
   \<and> 0 \<le> self_S (example_state\<lparr>self_S := 9223372036854775807\<rparr>)
   \<and> - 9223372036854775808 \<noteq> self_S (example_state\<lparr>self_S := 9223372036854775807\<rparr>) + min 1 (1::int)"
  by (simp add: block_step_def py_range_3 example_state_def np_int64_def example_gt_def
      SELDMetrics_init_def class_step_def dict_get_def dict_in_def)

subsection \<open>The spatial threshold\<close>

text \<open>
  Claim C5. Where the class is in both blocks and at least one ground-truth frame index
  occurs among the predicted ones, the iteration adds the mean distance to the total error,
  counts \<open>DE_TP\<close>, \<open>Nref\<close> and \<open>Nsys\<close>, and then: a mean at most the threshold increments TP
  and nothing else; a mean above it increments FN and \<open>loc_FN\<close> and nothing else. A mean equal
  to the threshold is a true positive.
\<close>

theorem both_present_threshold:
  assumes "dict_get gt block_cnt = Some gt_block"
    and "dict_get pred block_cnt = Some pred_block"
    and "dict_get gt_block class_cnt = Some ((gt_ind_list, gt_list) # gts)"
    and "dict_get pred_block class_cnt = Some ((pred_ind_list, pred_list) # pts)"
    and "matched_distance distance ((gt_ind_list, gt_list) # gts) ((pred_ind_list, pred_list) # pts)
           = Inr (total_spatial_dist, total_framewise_matching_doa)"
    and "set gt_ind_list \<inter> set pred_ind_list \<noteq> {}"
  shows "class_step distance pred gt block_cnt class_cnt (s, loc_FN, loc_FP) =
     (let avg_spatial_dist = total_spatial_dist / real_of_int total_framewise_matching_doa;
          s2 = s\<lparr>self_Nref := self_Nref s + 1, self_Nsys := self_Nsys s + 1,
                 self_total_DE := self_total_DE s + avg_spatial_dist,
                 self_DE_TP := self_DE_TP s + 1\<rparr>
      in if avg_spatial_dist \<le> self_spatial_T s
         then Inr (s2\<lparr>self_TP := self_TP s + 1\<rparr>, loc_FN, loc_FP)
         else Inr (s2\<lparr>self_FN := self_FN s + 1\<rparr>, loc_FN + 1, loc_FP))"
proof -
  from assms(6) obtain v where "v \<in> set gt_ind_list" "v \<in> set pred_ind_list" by auto
  then have "filter (\<lambda>v. v \<in> set pred_ind_list) gt_ind_list \<noteq> []"
    by (auto simp: filter_empty_conv)
  then have "total_framewise_matching_doa \<noteq> 0"
    using matched_distance_count [OF assms(5)] by simp
  then show ?thesis
    by (simp add: class_step_def assms(1-5) dict_in_def both_present_def Let_def)
qed

lemma dist_deg_azimuth:
  assumes "0 \<le> a" "a \<le> 180"
  shows "dist_deg (0, 0) (a, 0) = a"
proof -
  have "0 \<le> a * pi / 180" using assms(1) by simp
  moreover have "a * pi / 180 \<le> pi" using assms(2) by simp
  ultimately have "arccos (cos (a * pi / 180)) = a * pi / 180"
    by (rule arccos_cos)
  then show ?thesis
    by (simp add: dist_deg_def distance_between_spherical_coordinates_rad_def np_clip_def Let_def)
qed

lemma matched_deg:
  assumes "0 \<le> a" "a \<le> 180"
  shows "matched_distance dist_deg [([0], [(0, 0)])] [([0], [(a, 0)])] = Inr (a, 1)"
  by (simp add: matched_distance_def enumerate_eq_zip array_get_def dist_deg_azimuth [OF assms])

theorem both_present_threshold_witness:
  "matched_distance dist_deg [([0], [(0, 0)])] [([0], [(20, 0)])] = Inr (20, 1)
   \<and> class_step dist_deg (deg_pred 20) deg_gt 0 0 (SELDMetrics_init 20 1, 0, 0)
     = Inr (SELDMetrics_init 20 1\<lparr>self_Nref := 1, self_Nsys := 1, self_total_DE := 20,
              self_DE_TP := 1, self_TP := 1\<rparr>, 0, 0)
   \<and> matched_distance dist_deg [([0], [(0, 0)])] [([0], [(21, 0)])] = Inr (21, 1)
   \<and> class_step dist_deg (deg_pred 21) deg_gt 0 0 (SELDMetrics_init 20 1, 0, 0)
     = Inr (SELDMetrics_init 20 1\<lparr>self_Nref := 1, self_Nsys := 1, self_total_DE := 21,
              self_DE_TP := 1, self_FN := 1\<rparr>, 1, 0)"
proof -
  have g: "dict_get deg_gt 0 = Some [(0, [([0], [(0, 0)])])]"
    by (simp add: deg_gt_def dict_get_def)
  have gc: "dict_get [(0, [([0], [(0, 0)])])] (0::int) = Some [([0::int], [(0::real, 0::real)])]"
    by (simp add: dict_get_def)
  have p: "dict_get (deg_pred a) 0 = Some [(0, [([0], [(a, 0)])])]" for a
    by (simp add: deg_pred_def dict_get_def)
  have pc: "dict_get [(0, [([0], [(a, 0)])])] (0::int) = Some [([0::int], [(a::real, 0::real)])]" for a
    by (simp add: dict_get_def)
  have ne: "set [0::int] \<inter> set [0] \<noteq> {}" by simp
  have m20: "matched_distance dist_deg [([0], [(0, 0)])] [([0], [(20, 0)])] = Inr (20, 1)"
    by (rule matched_deg) simp_all
  have m21: "matched_distance dist_deg [([0], [(0, 0)])] [([0], [(21, 0)])] = Inr (21, 1)"
    by (rule matched_deg) simp_all
  from both_present_threshold [OF g p gc pc m20 ne, of "SELDMetrics_init 20 1" 0 0]
    both_present_threshold [OF g p gc pc m21 ne, of "SELDMetrics_init 20 1" 0 0]
  show ?thesis
    using m20 m21 by (simp add: SELDMetrics_init_def)
qed

subsection \<open>A block the predictions do not hold\<close>

lemma py_range_pos: "0 < n \<Longrightarrow> py_range n = 0 # map int [Suc 0..<nat n]"
  by (simp add: py_range_def upt_conv_Cons)

lemma block_step_missing_pred:
  assumes "0 < self_nb_classes s" and "dict_get pred block_cnt = None"
  shows "\<exists>s'. block_step distance pred gt s block_cnt = Inl (KeyError, s')"
  using assms
  by (simp add: block_step_def py_range_pos class_step_def Let_def split: option.splits)

lemma block_loop_missing_pred:
  assumes "dict_get pred block_cnt = None"
  shows "0 < self_nb_classes s \<Longrightarrow> block_cnt \<in> set bs
         \<Longrightarrow> \<exists>e s'. block_loop distance pred gt bs s = Inl (e, s')"
proof (induction bs arbitrary: s)
  case Nil
  then show ?case by simp
next
  case (Cons b bs)
  show ?case
  proof (cases "block_step distance pred gt s b")
    case (Inl x)
    then show ?thesis by (cases x) simp
  next
    case (Inr s1)
    then have nb: "0 < self_nb_classes s1"
      using block_step_nb_classes [OF Inr] Cons.prems(1) by simp
    have "b \<noteq> block_cnt"
      using block_step_missing_pred [OF Cons.prems(1) assms, of distance gt] Inr by auto
    with Cons.prems(2) have "block_cnt \<in> set bs" by simp
    from Cons.IH [OF nb this] Inr show ?thesis by simp
  qed
qed

lemma update_scores_missing_pred:
  assumes "0 < self_nb_classes s" and "b < dict_len gt" and "dict_get pred (int b) = None"
  shows "\<exists>e s'. update_scores distance s pred gt = Inl (e, s')"
proof -
  have "int b \<in> set (py_range (int (dict_len gt)))"
    using assms(2) by (simp add: py_range_def)
  from block_loop_missing_pred [OF assms(3) assms(1) this] show ?thesis
    by (simp add: update_scores_def)
qed

lemma class_step_empty_pred:
  assumes "dict_get gt block_cnt = Some gt_block" and "dict_get pred block_cnt = Some []"
  shows "class_step distance pred gt block_cnt class_cnt (s, loc_FN, loc_FP) =
     (if dict_in class_cnt gt_block
      then Inr (s\<lparr>self_Nref := self_Nref s + 1, self_FN := self_FN s + 1\<rparr>, loc_FN + 1, loc_FP)
      else Inr (s\<lparr>self_TN := self_TN s + 1\<rparr>, loc_FN, loc_FP))"
proof -
  have "dict_get ([] :: 'a block) class_cnt = None"
    by (simp add: dict_get_def)
  then show ?thesis
    by (simp add: class_step_def assms dict_in_def)
qed

lemma class_loop_empty_pred:
  assumes "dict_get gt block_cnt = Some gt_block" and "dict_get pred block_cnt = Some []"
  shows "\<exists>s'. class_loop distance pred gt block_cnt cs (s, loc_FN, loc_FP)
            = Inr (s', loc_FN + int (length (filter (\<lambda>c. dict_in c gt_block) cs)), loc_FP) \<and>
          self_FN s' = self_FN s + int (length (filter (\<lambda>c. dict_in c gt_block) cs)) \<and>
          self_FP s' = self_FP s \<and> self_TP s' = self_TP s"
proof (induction cs arbitrary: s loc_FN)
  case Nil
  show ?case by simp
next
  case (Cons c cs)
  show ?case
  proof (cases "dict_in c gt_block")
    case True
    from Cons.IH [of "s\<lparr>self_Nref := self_Nref s + 1, self_FN := self_FN s + 1\<rparr>" "loc_FN + 1"]
    show ?thesis
      by (simp add: class_step_empty_pred [OF assms] True add.assoc)
  next
    case False
    from Cons.IH [of "s\<lparr>self_TN := self_TN s + 1\<rparr>" loc_FN]
    show ?thesis
      by (simp add: class_step_empty_pred [OF assms] False)
  qed
qed

lemma block_step_empty_pred:
  assumes "dict_get gt block_cnt = Some gt_block" and "dict_get pred block_cnt = Some []"
  shows "\<exists>s'. block_step distance pred gt s block_cnt = Inr s' \<and>
          self_FN s' = self_FN s
            + int (length (filter (\<lambda>c. dict_in c gt_block) (py_range (self_nb_classes s)))) \<and>
          self_FP s' = self_FP s \<and> self_TP s' = self_TP s"
proof -
  from class_loop_empty_pred [OF assms, of distance "py_range (self_nb_classes s)" s 0]
  obtain s1 where
    "class_loop distance pred gt block_cnt (py_range (self_nb_classes s)) (s, 0, 0)
       = Inr (s1, int (length (filter (\<lambda>c. dict_in c gt_block) (py_range (self_nb_classes s)))), 0)"
    and "self_FN s1 = self_FN s
       + int (length (filter (\<lambda>c. dict_in c gt_block) (py_range (self_nb_classes s))))"
    and "self_FP s1 = self_FP s" and "self_TP s1 = self_TP s"
    by auto
  then show ?thesis
    by (simp add: block_step_def)
qed

text \<open>
  Claim C3, as the code has it. With at least one class, a block for which the predictions
  have no entry makes the iteration raise \<open>KeyError\<close>, and a call whose predictions lack
  an entry for a block index below the number of ground-truth blocks raises and does not
  return. The block is processed with every ground-truth class a false negative, no false
  positive and no true positive when the predictions hold an empty mapping for it.
\<close>

theorem missing_prediction_block:
  "(0 < self_nb_classes s \<and> dict_get pred block_cnt = None \<longrightarrow>
      (\<exists>s'. block_step distance pred gt s block_cnt = Inl (KeyError, s')))
   \<and> (0 < self_nb_classes s \<and> b < dict_len gt_xyz \<and> dict_get pred_xyz (int b) = None \<longrightarrow>
      (\<exists>e s'. update_seld_scores_xyz s pred_xyz gt_xyz = Inl (e, s')))
   \<and> (0 < self_nb_classes s \<and> b < dict_len gt_deg \<and> dict_get pred_deg (int b) = None \<longrightarrow>
      (\<exists>e s'. update_seld_scores s pred_deg gt_deg = Inl (e, s')))
   \<and> (dict_get gt block_cnt = Some gt_block \<and> dict_get pred block_cnt = Some [] \<longrightarrow>
      (\<exists>s'. block_step distance pred gt s block_cnt = Inr s' \<and>
         self_FN s' = self_FN s
           + int (length (filter (\<lambda>c. dict_in c gt_block) (py_range (self_nb_classes s)))) \<and>
         self_FP s' = self_FP s \<and> self_TP s' = self_TP s))"
  using block_step_missing_pred [of s pred block_cnt distance gt]
    update_scores_missing_pred [of s b gt_xyz pred_xyz dist_xyz]
    update_scores_missing_pred [of s b gt_deg pred_deg dist_deg]
    block_step_empty_pred [of gt block_cnt gt_block pred distance s]
  unfolding update_seld_scores_xyz_def update_seld_scores_def
  by blast

theorem missing_prediction_block_witness:
  "0 < self_nb_classes example_state
   \<and> dict_get ([] :: xyz annotation) 0 = None
   \<and> (\<exists>s'. block_step dist_xyz [] example_gt example_state 0 = Inl (KeyError, s'))
   \<and> (\<exists>e s'. update_seld_scores_xyz example_state [] example_gt = Inl (e, s'))
   \<and> (\<exists>e s'. update_seld_scores example_state [] deg_gt = Inl (e, s'))
   \<and> dict_get example_gt 0 = Some [(0, example_track)]
   \<and> dict_get [(0, [])] (0::int) = Some ([] :: xyz block)
   \<and> (\<exists>s'. block_step dist_xyz [(0, [])] example_gt example_state 0 = Inr s' \<and>
          self_FN s' = 1 \<and> self_FP s' = 0 \<and> self_TP s' = 0)"
proof -
  have nb: "0 < self_nb_classes example_state"
    by (simp add: example_state_def SELDMetrics_init_def)
  have none_xyz: "dict_get ([] :: xyz annotation) (int 0) = None"
    and none_deg: "dict_get ([] :: azi_ele annotation) (int 0) = None"
    by (simp_all add: dict_get_def)
  have len: "0 < dict_len example_gt" "0 < dict_len deg_gt"
    by (simp_all add: dict_len_def example_gt_def deg_gt_def)
  have g: "dict_get example_gt 0 = Some [(0, example_track)]"
    by (simp add: example_gt_def dict_get_def)
  have p: "dict_get [(0, [])] (0::int) = Some ([] :: xyz block)"
    by (simp add: dict_get_def)
  have k: "int (length (filter (\<lambda>c. dict_in c [(0::int, example_track)])
             (py_range (self_nb_classes example_state)))) = 1"
    by (simp add: example_state_def SELDMetrics_init_def py_range_3 dict_in_def dict_get_def)
  have z: "self_FN example_state = 0" "self_FP example_state = 0" "self_TP example_state = 0"
    by (simp_all add: example_state_def SELDMetrics_init_def)
  from missing_prediction_block [of example_state "[]" 0 dist_xyz example_gt 0 example_gt "[]"
      deg_gt "[]" "[(0, example_track)]"]
    missing_prediction_block [of example_state "[(0, [])]" 0 dist_xyz example_gt 0 example_gt "[]"
      deg_gt "[]" "[(0, example_track)]"]
  show ?thesis
    using nb none_xyz none_deg len g p by (simp add: k z)
qed

text \<open>
  Claim C3 as stated fails: with no entry for block 0 in the predictions the call raises
  \<open>KeyError\<close>, where an empty entry gives a false negative and a deletion.
\<close>

theorem missing_prediction_block_counterexample:
  "update_seld_scores_xyz example_state [] example_gt
     = Inl (KeyError, example_state\<lparr>self_Nref := 1\<rparr>)
   \<and> update_seld_scores_xyz example_state [(0, [])] example_gt
     = Inr (example_state\<lparr>self_TN := 2, self_FN := 1, self_D := 1, self_Nref := 1\<rparr>)"
  by (simp add: update_seld_scores_xyz_def update_scores_def dict_len_def example_gt_def
      py_range_1 block_step_def py_range_3 example_state_def np_int64_def
      SELDMetrics_init_def class_step_def dict_get_def dict_in_def)

section \<open>The two distances\<close>

text \<open>
  Claim C2, at the opposite unit vectors \<open>(1, 0, 0)\<close> and \<open>(- 1, 0, 0)\<close>: the chord is 2, the
  code clips it to 1 and returns 60 degrees, not 180. No pair of points is further than 60
  degrees apart for \<open>distance_between_cartesian_coordinates\<close>.
\<close>

theorem cartesian_distance_at_most_60:
  "distance_between_cartesian_coordinates 1 0 0 (- 1) 0 0 = 60
   \<and> distance_between_cartesian_coordinates x1 y1 z1 x2 y2 z2 \<le> 60"
proof
  show "distance_between_cartesian_coordinates 1 0 0 (- 1) 0 0 = 60"
    by (simp add: distance_between_cartesian_coordinates_def np_clip_def Let_def)
next
  define d where "d = np_clip (sqrt ((x1 - x2) ^ 2 + (y1 - y2) ^ 2 + (z1 - z2) ^ 2)) (- 1) 1"
  have "0 \<le> d" "d \<le> 1"
    by (simp_all add: d_def np_clip_def le_max_iff_disj)
  then have "arcsin (d / 2) \<le> arcsin (1 / 2)"
    by (intro arcsin_le_arcsin) simp_all
  then have "2 * arcsin (d / 2) * 180 / pi \<le> 60"
    by (simp add: field_simps)
  then show "distance_between_cartesian_coordinates x1 y1 z1 x2 y2 z2 \<le> 60"
    by (simp add: distance_between_cartesian_coordinates_def Let_def d_def)
qed

lemma matched_xyz_opposite:
  "matched_distance dist_xyz [([0], [(1, 0, 0)])] [([0], [(- 1, 0, 0)])] = Inr (60, 1)"
proof -
  have "dist_xyz (1, 0, 0) (- 1, 0, 0) = 60"
    by (simp add: dist_xyz_def distance_between_cartesian_coordinates_def np_clip_def Let_def)
  then show ?thesis
    by (simp add: matched_distance_def enumerate_eq_zip array_get_def)
qed

text \<open>
  Claim C1, at the same geometry in both systems, ground truth at azimuth 0 and prediction
  at azimuth 180 on the horizon: the Cartesian distance is 60 and the polar one 180, and with
  a threshold of 90 degrees \<open>update_seld_scores_xyz\<close> counts a true positive where
  \<open>update_seld_scores\<close> counts a false negative and a deletion; the total errors differ too.
\<close>

theorem cartesian_and_polar_disagree:
  "(cos 0 * cos 0, cos 0 * sin 0, sin (0::real)) = (1, 0, 0)
   \<and> (cos 0 * cos (180 * pi / 180), cos 0 * sin (180 * pi / 180), sin (0::real)) = (- 1, 0, 0)
   \<and> dist_xyz (1, 0, 0) (- 1, 0, 0) = 60
   \<and> dist_deg (0, 0) (180, 0) = 180
   \<and> update_seld_scores_xyz (SELDMetrics_init 90 1) xyz_pred_opposite example_gt
       = Inr (SELDMetrics_init 90 1\<lparr>self_TP := 1, self_Nref := 1, self_Nsys := 1,
                self_total_DE := 60, self_DE_TP := 1\<rparr>)
   \<and> update_seld_scores (SELDMetrics_init 90 1) (deg_pred 180) deg_gt
       = Inr (SELDMetrics_init 90 1\<lparr>self_FN := 1, self_D := 1, self_Nref := 1, self_Nsys := 1,
                self_total_DE := 180, self_DE_TP := 1\<rparr>)"
proof -
  have m1: "matched_distance dist_deg [([0], [(0, 0)])] [([0], [(180, 0)])] = Inr (180, 1)"
    by (rule matched_deg) simp_all
  have d1: "dist_xyz (1, 0, 0) (- 1, 0, 0) = 60"
    by (simp add: dist_xyz_def distance_between_cartesian_coordinates_def np_clip_def Let_def)
  have d2: "dist_deg (0, 0) (180, 0) = 180"
    by (rule dist_deg_azimuth) simp_all
  note r = py_range_1
  have u1: "update_seld_scores_xyz (SELDMetrics_init 90 1) xyz_pred_opposite example_gt
       = Inr (SELDMetrics_init 90 1\<lparr>self_TP := 1, self_Nref := 1, self_Nsys := 1,
                self_total_DE := 60, self_DE_TP := 1\<rparr>)"
    by (simp add: update_seld_scores_xyz_def update_scores_def dict_len_def example_gt_def
        xyz_pred_opposite_def example_track_def r block_step_def SELDMetrics_init_def
        class_step_def dict_get_def dict_in_def matched_xyz_opposite both_present_def
        np_int64_def)
  have u2: "update_seld_scores (SELDMetrics_init 90 1) (deg_pred 180) deg_gt
       = Inr (SELDMetrics_init 90 1\<lparr>self_FN := 1, self_D := 1, self_Nref := 1, self_Nsys := 1,
                self_total_DE := 180, self_DE_TP := 1\<rparr>)"
    by (simp add: update_seld_scores_def update_scores_def dict_len_def deg_gt_def
        deg_pred_def r block_step_def SELDMetrics_init_def
        class_step_def dict_get_def dict_in_def m1 both_present_def np_int64_def)
  show ?thesis
    using d1 d2 u1 u2 by simp
qed

end
